theory Spec2Isabelle
  imports Complex_Main
begin

section \<open>JavaScript values\<close>

text \<open>
  The aggregation service reads raw values of TypeScript type \<open>unknown\<close> out of result
  rows. A value is one of the JavaScript primitives or an object. A number is a real or
  \<open>NaN\<close> (rounding to the nearest double and the infinities are not represented). A
  \<open>Date\<close> object carries the two renderings the service asks of it, \<open>toISOString()\<close>
  and \<open>toString()\<close>; every other object carries its \<open>toString()\<close> rendering.
\<close>

datatype jsval =
    JUndefined
  | JNull
  | JBool bool
  | JNum real
  | JNaN
  | JBigInt int
  | JStr string
  | JDate string string
  | JObject string

text \<open>lodash \<open>isObject\<close>: true of every non-null object.\<close>

fun isObject :: "jsval \<Rightarrow> bool" where
  "isObject (JDate t s) = True"
| "isObject (JObject s) = True"
| "isObject v = False"

text \<open>
  The conversions of the JavaScript runtime that the service does not write itself:
  \<open>numericToString\<close> renders a number or a bigint as text, \<open>toNumberOther\<close> is
  \<open>Number(v)\<close> on a string or an object.
\<close>

record jsrt =
  numericToString :: "jsval \<Rightarrow> string"
  toNumberOther :: "jsval \<Rightarrow> jsval"

text \<open>\<open>String(v)\<close>, and the conversion of a template literal \<open>`${v}`\<close>.\<close>

fun js_String :: "jsrt \<Rightarrow> jsval \<Rightarrow> string" where
  "js_String rt JUndefined = ''undefined''"
| "js_String rt JNull = ''null''"
| "js_String rt (JBool b) = (if b then ''true'' else ''false'')"
| "js_String rt (JNum r) = numericToString rt (JNum r)"
| "js_String rt JNaN = ''NaN''"
| "js_String rt (JBigInt i) = numericToString rt (JBigInt i)"
| "js_String rt (JStr s) = s"
| "js_String rt (JDate t s) = s"
| "js_String rt (JObject s) = s"

text \<open>\<open>Number(v)\<close>\<close>

fun js_Number :: "jsrt \<Rightarrow> jsval \<Rightarrow> jsval" where
  "js_Number rt JUndefined = JNaN"
| "js_Number rt JNull = JNum 0"
| "js_Number rt (JBool b) = JNum (if b then 1 else 0)"
| "js_Number rt (JNum r) = JNum r"
| "js_Number rt JNaN = JNaN"
| "js_Number rt (JBigInt i) = JNum (of_int i)"
| "js_Number rt v = toNumberOther rt v"

text \<open>\<open>a ?? b\<close>\<close>

fun nullish :: "jsval \<Rightarrow> jsval \<Rightarrow> jsval" where
  "nullish JUndefined d = d"
| "nullish JNull d = d"
| "nullish v d = v"

text \<open>
  \<open>a === b\<close>. Two primitives are strictly equal when they are the same value, except
  that \<open>NaN\<close> equals nothing; two objects read from two places are two references and
  never equal.
\<close>

fun strictEq :: "jsval \<Rightarrow> jsval \<Rightarrow> bool" where
  "strictEq JNaN w = False"
| "strictEq (JDate t s) w = False"
| "strictEq (JObject s) w = False"
| "strictEq v w = (v = w)"

text \<open>\<open>s.split(',')\<close>, for any separator character.\<close>

fun split_on :: "char \<Rightarrow> string \<Rightarrow> string list" where
  "split_on c [] = [[]]"
| "split_on c (x # xs) =
     (if x = c then [] # split_on c xs
      else (case split_on c xs of
              [] \<Rightarrow> [[x]]
            | y # ys \<Rightarrow> (x # y) # ys))"

section \<open>Decoding aggregation values\<close>

text \<open>
  The members of the enum \<open>StatisticsFunc\<close> that the service names, and
  \<open>OtherStatisticsFunc\<close> for every other member, by its name. Every member is a
  non-empty string, so an \<open>aggFunc\<close> is falsy exactly when it is absent.
\<close>

datatype StatisticsFunc =
    PercentEmpty
  | PercentFilled
  | PercentUnique
  | PercentChecked
  | PercentUnChecked
  | DateRangeOfMonths
  | OtherStatisticsFunc string

text \<open>\<open>convertValueToNumberOrString\<close>\<close>

fun convertValueToNumberOrString :: "jsval \<Rightarrow> jsval" where
  "convertValueToNumberOrString (JNum r) = JNum r"
| "convertValueToNumberOrString JNaN = JNaN"
| "convertValueToNumberOrString (JBigInt i) = JNum (of_int i)"
| "convertValueToNumberOrString (JDate t s) = JStr t"
| "convertValueToNumberOrString JUndefined = JNull"
| "convertValueToNumberOrString JNull = JNull"
| "convertValueToNumberOrString (JBool b) = JStr (if b then ''true'' else ''false'')"
| "convertValueToNumberOrString (JStr s) = JStr s"
| "convertValueToNumberOrString (JObject s) = JStr s"

text \<open>
  \<open>calculateDateRangeOfMonths\<close>. The parameter \<open>diffMonth\<close> is the library call
  \<open>dayjs(maxTime).diff(minTime, 'month')\<close>, a number. The destructuring
  \<open>[maxTime, minTime] = currentValue.split(',')\<close> leaves a name \<open>undefined\<close> when the
  list is too short; \<open>undefined\<close> and the empty string are falsy.
\<close>

definition calculateDateRangeOfMonths :: "(string \<Rightarrow> string \<Rightarrow> jsval) \<Rightarrow> string \<Rightarrow> jsval" where
  "calculateDateRangeOfMonths diffMonth currentValue =
     (case split_on CHR '','' currentValue of
        maxTime # minTime # rest \<Rightarrow>
          (if maxTime \<noteq> [] \<and> minTime \<noteq> [] then diffMonth maxTime minTime else JNum 0)
      | _ \<Rightarrow> JNum 0)"

definition defaultToZero :: "StatisticsFunc list" where
  "defaultToZero =
     [PercentEmpty, PercentFilled, PercentUnique, PercentChecked, PercentUnChecked]"

text \<open>\<open>formatConvertValue\<close>\<close>

definition formatConvertValue ::
  "(string \<Rightarrow> string \<Rightarrow> jsval) \<Rightarrow> jsval \<Rightarrow> StatisticsFunc option \<Rightarrow> jsval" where
  "formatConvertValue diffMonth currentValue aggFunc =
     (let convertValue = convertValueToNumberOrString currentValue in
      case aggFunc of
        None \<Rightarrow> convertValue
      | Some f \<Rightarrow>
          (let convertValue1 =
                 (case currentValue of
                    JStr s \<Rightarrow>
                      (if f = DateRangeOfMonths
                       then calculateDateRangeOfMonths diffMonth s else convertValue)
                  | _ \<Rightarrow> convertValue);
               convertValue2 =
                 (if f \<in> set defaultToZero then nullish convertValue1 (JNum 0)
                  else convertValue1)
           in convertValue2))"

text \<open>
  Modelled from the spec: the library \<open>dayjs\<close> is not part of the sources. For two
  calendar dates written \<open>YYYY-MM-DD\<close>, \<open>monthDifference\<close> is "the integer
  month-difference between max and min": the whole months from the second date to the
  first, a month counting once the day of the month is reached, truncated towards zero;
  a text that is not such a date gives \<open>NaN\<close>.
\<close>

definition digitOf :: "char \<Rightarrow> nat option" where
  "digitOf c =
     (let n = of_char c :: nat in if 48 \<le> n \<and> n \<le> 57 then Some (n - 48) else None)"

fun digitsValue :: "nat \<Rightarrow> string \<Rightarrow> nat option" where
  "digitsValue acc [] = Some acc"
| "digitsValue acc (c # cs) =
     (case digitOf c of None \<Rightarrow> None | Some d \<Rightarrow> digitsValue (10 * acc + d) cs)"

definition parseYMD :: "string \<Rightarrow> (int \<times> int \<times> int) option" where
  "parseYMD s =
     (case split_on CHR ''-'' s of
        [y, m, d] \<Rightarrow>
          (if length y = 4 \<and> length m = 2 \<and> length d = 2 then
             (case (digitsValue 0 y, digitsValue 0 m, digitsValue 0 d) of
                (Some yy, Some mm, Some dd) \<Rightarrow>
                  (if 1 \<le> mm \<and> mm \<le> 12 \<and> 1 \<le> dd \<and> dd \<le> 31
                   then Some (int yy, int mm, int dd) else None)
              | _ \<Rightarrow> None)
           else None)
      | _ \<Rightarrow> None)"

definition wholeMonths :: "int \<times> int \<times> int \<Rightarrow> int \<times> int \<times> int \<Rightarrow> int" where
  "wholeMonths a b =
     (case (a, b) of
        ((y1, m1, d1), (y2, m2, d2)) \<Rightarrow>
          (let months = (y1 - y2) * 12 + (m1 - m2) in
           if 0 < months \<and> d1 < d2 then months - 1
           else if months < 0 \<and> d2 < d1 then months + 1
           else months))"

definition monthDifference :: "string \<Rightarrow> string \<Rightarrow> jsval" where
  "monthDifference maxTime minTime =
     (case (parseYMD maxTime, parseYMD minTime) of
        (Some a, Some b) \<Rightarrow> JNum (of_int (wholeMonths a b))
      | _ \<Rightarrow> JNaN)"

section \<open>Fields and the shared lookup map\<close>

text \<open>
  A field instance, as far as the service reads it. The cell value that
  \<open>convertDBValue2CellValue\<close> returns is never inspected here, so its type is a
  parameter. \<open>DbFieldType.Json\<close> is the one storage type the service names.
\<close>

datatype DbFieldType = Json | OtherDbFieldType string

record 'c IFieldInstance =
  field_id :: string
  field_name :: string
  dbFieldName :: string
  dbFieldType :: DbFieldType
  convertDBValue2CellValue :: "jsval \<Rightarrow> 'c"

text \<open>
  The reducer of \<open>getFieldsData\<close>: \<open>map[field.id] = field; map[field.name] = field\<close>,
  over the fields in their order, from the empty object.
\<close>

definition fieldInstanceMapOf ::
  "'c IFieldInstance list \<Rightarrow> (string \<rightharpoonup> 'c IFieldInstance)" where
  "fieldInstanceMapOf fieldInstances =
     fold (\<lambda>field m. (m(field_id field \<mapsto> field))(field_name field \<mapsto> field))
       fieldInstances Map.empty"

section \<open>Group points\<close>

datatype 'c IGroupPoint =
    Header (header_id: string) (depth: nat) (header_value: 'c)
  | Row (row_count: jsval)

text \<open>A result row is an object: a finite map from column names to raw values.\<close>

type_synonym row = "string \<rightharpoonup> jsval"

text \<open>\<open>item[key]\<close>: a missing property reads as \<open>undefined\<close>.\<close>

definition getProp :: "row \<Rightarrow> string \<Rightarrow> jsval" where
  "getProp item key = (case item key of None \<Rightarrow> JUndefined | Some v \<Rightarrow> v)"

text \<open>
  The two variables of \<open>groupDbCollection2GroupPoints\<close> start as fresh symbols
  (\<open>Symbol()\<close>), which are strictly equal to no value of a row: \<open>None\<close> here.
\<close>

record 'c groupState =
  firstDbFieldValue :: "jsval option"
  secondDbFieldValue :: "jsval option"
  groupPoints :: "'c IGroupPoint list"

fun sameAs :: "jsval option \<Rightarrow> jsval \<Rightarrow> bool" where
  "sameAs None v = False"
| "sameAs (Some u) v = strictEq u v"

text \<open>\<open>isObject(item[dbFieldName]) ? String(item[dbFieldName]) : item[dbFieldName]\<close>\<close>

definition fieldValueOf :: "jsrt \<Rightarrow> row \<Rightarrow> string \<Rightarrow> jsval" where
  "fieldValueOf rt item name =
     (if isObject (getProp item name) then JStr (js_String rt (getProp item name))
      else getProp item name)"

text \<open>
  The header pushed for a field at a depth. \<open>string2Hash\<close> is the utility of that
  name, a function from text to a number.
\<close>

definition headerPoint ::
  "(string \<Rightarrow> jsval) \<Rightarrow> jsrt \<Rightarrow> nat \<Rightarrow> 'c IFieldInstance \<Rightarrow> jsval \<Rightarrow> 'c IGroupPoint" where
  "headerPoint string2Hash rt index field fieldValue =
     Header (js_String rt (string2Hash (field_id field @ ''_'' @ js_String rt fieldValue)))
       index (convertDBValue2CellValue field fieldValue)"

text \<open>
  The callback of the inner \<open>groupFields.forEach((field, index) => ...)\<close>. A
  \<open>return\<close> leaves the callback for this field only; the next field is still visited.
\<close>

definition fieldStep ::
  "(string \<Rightarrow> jsval) \<Rightarrow> jsrt \<Rightarrow> row \<Rightarrow> nat \<times> 'c IFieldInstance \<Rightarrow> 'c groupState
     \<Rightarrow> 'c groupState" where
  "fieldStep string2Hash rt item p st =
     (case p of (index, field) \<Rightarrow>
        (let fieldValue = fieldValueOf rt item (dbFieldName field) in
         if index = 0 \<and> sameAs (firstDbFieldValue st) fieldValue then st
         else
           (let st1 = (if index = 0
                       then st\<lparr>firstDbFieldValue := Some fieldValue,
                               secondDbFieldValue := None\<rparr>
                       else st) in
            if index = 1 \<and> sameAs (secondDbFieldValue st1) fieldValue then st1
            else
              (let st2 = (if index = 1 then st1\<lparr>secondDbFieldValue := Some fieldValue\<rparr>
                          else st1) in
               st2\<lparr>groupPoints := groupPoints st2 @
                      [headerPoint string2Hash rt index field fieldValue]\<rparr>))))"

text \<open>The callback of the outer \<open>groupResult.forEach((item) => ...)\<close>.\<close>

definition itemStep ::
  "(string \<Rightarrow> jsval) \<Rightarrow> jsrt \<Rightarrow> 'c IFieldInstance list \<Rightarrow> row \<Rightarrow> 'c groupState
     \<Rightarrow> 'c groupState" where
  "itemStep string2Hash rt groupFields item st =
     (let st1 = fold (fieldStep string2Hash rt item) (enumerate 0 groupFields) st in
      st1\<lparr>groupPoints := groupPoints st1 @ [Row (js_Number rt (getProp item ''__c''))]\<rparr>)"

definition initialGroupState :: "'c groupState" where
  "initialGroupState =
     \<lparr>firstDbFieldValue = None, secondDbFieldValue = None, groupPoints = []\<rparr>"

text \<open>\<open>groupDbCollection2GroupPoints\<close>\<close>

definition groupDbCollection2GroupPoints ::
  "(string \<Rightarrow> jsval) \<Rightarrow> jsrt \<Rightarrow> row list \<Rightarrow> 'c IFieldInstance list \<Rightarrow> 'c IGroupPoint list" where
  "groupDbCollection2GroupPoints string2Hash rt groupResult groupFields =
     groupPoints (fold (itemStep string2Hash rt groupFields) groupResult initialGroupState)"

section \<open>The query builder\<close>

text \<open>
  A statement under construction by the library \<open>knex\<close>, as a value: the table, the
  projections (plain columns and aggregates share one list, which \<open>clearSelect\<close>
  empties), and the clauses, each kind in the order it was attached. What the filter, sort
  and link-candidate compilers attach is text the service never reads. A column is
  \<open>knex.ref(name)\<close>, \<open>knex.raw('CAST(?? as text)', [name])\<close>, the star, or raw text.
\<close>

datatype column = Ref string | CastAsText string | Star | RawSql string

datatype projection =
    Select column
  | CountAs string column
  | CountDistinct column

record queryBuilder =
  qb_table :: string
  qb_columns :: "projection list"
  qb_joins :: "string list"
  qb_wheres :: "string list"
  qb_groups :: "column list"
  qb_havings :: "string list"
  qb_orders :: "string list"
  qb_counters :: "(string \<times> int) list"
  qb_limit :: "nat option"
  qb_offset :: "nat option"

text \<open>\<open>this.knex(dbTableName)\<close>\<close>

definition knex :: "string \<Rightarrow> queryBuilder" where
  "knex dbTableName =
     \<lparr>qb_table = dbTableName, qb_columns = [], qb_joins = [], qb_wheres = [],
      qb_groups = [], qb_havings = [], qb_orders = [], qb_counters = [],
      qb_limit = None, qb_offset = None\<rparr>"

definition clearSelect :: "queryBuilder \<Rightarrow> queryBuilder" where
  "clearSelect qb = qb\<lparr>qb_columns := []\<rparr>"

definition clearCounters :: "queryBuilder \<Rightarrow> queryBuilder" where
  "clearCounters qb = qb\<lparr>qb_counters := []\<rparr>"

definition clearGroup :: "queryBuilder \<Rightarrow> queryBuilder" where
  "clearGroup qb = qb\<lparr>qb_groups := []\<rparr>"

definition clearHaving :: "queryBuilder \<Rightarrow> queryBuilder" where
  "clearHaving qb = qb\<lparr>qb_havings := []\<rparr>"

definition clearOrder :: "queryBuilder \<Rightarrow> queryBuilder" where
  "clearOrder qb = qb\<lparr>qb_orders := []\<rparr>"

definition clearLimit :: "queryBuilder \<Rightarrow> queryBuilder" where
  "clearLimit qb = qb\<lparr>qb_limit := None\<rparr>"

definition clearOffset :: "queryBuilder \<Rightarrow> queryBuilder" where
  "clearOffset qb = qb\<lparr>qb_offset := None\<rparr>"

text \<open>\<open>qb.count({alias: '*'})\<close>, \<open>qb.countDistinct(c)\<close>, \<open>qb.select(c)\<close>, \<open>qb.groupByRaw(c)\<close>\<close>

definition countAs :: "string \<Rightarrow> column \<Rightarrow> queryBuilder \<Rightarrow> queryBuilder" where
  "countAs alias c qb = qb\<lparr>qb_columns := qb_columns qb @ [CountAs alias c]\<rparr>"

definition countDistinct :: "column \<Rightarrow> queryBuilder \<Rightarrow> queryBuilder" where
  "countDistinct c qb = qb\<lparr>qb_columns := qb_columns qb @ [CountDistinct c]\<rparr>"

definition selectColumn :: "column \<Rightarrow> queryBuilder \<Rightarrow> queryBuilder" where
  "selectColumn c qb = qb\<lparr>qb_columns := qb_columns qb @ [Select c]\<rparr>"

definition groupByRaw :: "column \<Rightarrow> queryBuilder \<Rightarrow> queryBuilder" where
  "groupByRaw c qb = qb\<lparr>qb_groups := qb_groups qb @ [c]\<rparr>"

text \<open>
  The column expression both \<open>checkGroupingOverLimit\<close> and \<open>getGroupPoints\<close> build for
  a field: a JSON column is cast to text.
\<close>

definition columnOf :: "'c IFieldInstance \<Rightarrow> column" where
  "columnOf field =
     (if dbFieldType field = Json then CastAsText (dbFieldName field)
      else Ref (dbFieldName field))"

text \<open>
  The clearing chain of \<open>getRowCount\<close> and its \<open>count({ count: '*' })\<close>: the statement
  it hands to the store.
\<close>

definition rowCountSql :: "queryBuilder \<Rightarrow> queryBuilder" where
  "rowCountSql queryBuilder =
     countAs ''count'' Star
       (clearOffset (clearLimit (clearOrder (clearHaving (clearGroup
          (clearCounters (clearSelect queryBuilder)))))))"

section \<open>Requests, views and collaborators\<close>

datatype error = NotFound | PayloadTooLarge | TypeError | SyntaxError

text \<open>
  A filter expression is opaque to the service, which only tests whether there is one;
  it is carried as its text. A link-cell selection is a field id, or a field id with a
  record id.
\<close>

datatype IFilter = Filter string

datatype linkCell = LinkField string | LinkFieldRecord string string

datatype sortOrder = Asc | Desc

record groupItem =
  group_fieldId :: string
  group_order :: sortOrder

record ICustomFieldStats =
  cfs_fieldId :: string
  cfs_statisticFunc :: "StatisticsFunc option"

record IAggregationField =
  agg_fieldId :: string
  agg_statisticFunc :: StatisticsFunc

record IWithView =
  wv_viewId :: "string option"
  wv_customFilter :: "IFilter option"
  wv_customFieldStats :: "ICustomFieldStats list option"

record IStatisticsData =
  sd_viewId :: "string option"
  sd_filter :: "IFilter option"
  sd_statisticFields :: "IAggregationField list option"

record IQueryBaseRo =
  ro_viewId :: "string option"
  ro_filter :: "IFilter option"
  ro_filterLinkCellCandidate :: "linkCell option"
  ro_filterLinkCellSelected :: "linkCell option"

record IGroupPointsRo =
  gp_viewId :: "string option"
  gp_groupBy :: "groupItem list option"
  gp_filter :: "IFilter option"

record IRawRowCountValue =
  rowCount :: jsval

text \<open>
  The view row that \<open>findView\<close> selects, after \<open>nullsToUndefined\<close>; and one entry of the
  parsed column meta, where \<open>meta_hidden\<close> says \<open>hidden === true\<close>.
\<close>

record viewRaw =
  view_id :: string
  view_columnMeta :: "string option"
  view_filter :: "string option"
  view_group :: "string option"

record columnMetaEntry =
  meta_hidden :: bool
  meta_statisticFunc :: "StatisticsFunc option"

type_synonym IColumnMeta = "string \<rightharpoonup> columnMetaEntry"

text \<open>
  What the service is given: the metadata store (\<open>prisma.view\<close>, \<open>prisma.field\<close>
  with \<open>createFieldInstanceByRaw\<close>, \<open>prisma.tableMeta\<close> where an unknown table has no
  row), the raw query execution \<open>$queryRawUnsafe\<close>, the filter and sort compilers, the
  record service, the helpers \<open>mergeWithDefaultFilter\<close>, \<open>parseGroup\<close>,
  \<open>JSON.parse\<close> on a column meta (\<open>None\<close> for a falsy value) and \<open>string2Hash\<close>, the
  JavaScript runtime, the threshold \<open>maxGroupPoints\<close> and the id of the acting user. The
  store is read only, so each is a function; a failure of the connection is not modelled.
\<close>

record 'c env =
  viewFindFirst :: "string \<Rightarrow> string \<Rightarrow> viewRaw option"
  fieldFindMany :: "string \<Rightarrow> string list option \<Rightarrow> 'c IFieldInstance list"
  tableMetaFind :: "string \<Rightarrow> string option"
  queryRawUnsafe :: "queryBuilder \<Rightarrow> row list"
  filterQuery ::
    "(string \<rightharpoonup> 'c IFieldInstance) \<Rightarrow> IFilter \<Rightarrow> string option \<Rightarrow> queryBuilder \<Rightarrow> queryBuilder"
  sortQuery ::
    "(string \<rightharpoonup> 'c IFieldInstance) \<Rightarrow> groupItem list \<Rightarrow> queryBuilder \<Rightarrow> queryBuilder"
  getLinkSelectedRecordIds :: "linkCell \<Rightarrow> string list"
  buildLinkCandidateQuery :: "string \<Rightarrow> linkCell \<Rightarrow> queryBuilder \<Rightarrow> queryBuilder"
  mergeWithDefaultFilter :: "string option \<Rightarrow> IFilter option \<Rightarrow> error + IFilter option"
  parseGroup :: "groupItem list option \<Rightarrow> groupItem list option"
  parseColumnMeta :: "string \<Rightarrow> error + IColumnMeta option"
  string2Hash :: "string \<Rightarrow> jsval"
  runtime :: jsrt
  maxGroupPoints :: real
  currentUserId :: "string option"

text \<open>
  Every call that leaves the service is recorded, in order. \<open>QueryRaw\<close> is an execution
  of a statement over the storage table by \<open>$queryRawUnsafe\<close>.
\<close>

datatype event =
    ViewFindFirst string string
  | FieldFindMany string
  | TableMetaFind string
  | QueryRaw queryBuilder
  | LinkSelectedRecordIds linkCell
  | LinkCandidateQuery string linkCell

fun isQueryRaw :: "event \<Rightarrow> bool" where
  "isQueryRaw (QueryRaw q) = True"
| "isQueryRaw e = False"

text \<open>A string is truthy when it is present and not empty.\<close>

fun truthyStr :: "string option \<Rightarrow> bool" where
  "truthyStr None = False"
| "truthyStr (Some s) = (s \<noteq> [])"

fun truthyLink :: "linkCell option \<Rightarrow> bool" where
  "truthyLink None = False"
| "truthyLink (Some (LinkField s)) = (s \<noteq> [])"
| "truthyLink (Some (LinkFieldRecord f r)) = True"

section \<open>The service\<close>

text \<open>
  An operation takes the record of the calls made so far and returns its result, an
  error where the source throws, with the record extended.
\<close>

text \<open>\<open>findView\<close>: no view id, no lookup.\<close>

definition findView ::
  "'c env \<Rightarrow> string \<Rightarrow> IWithView option \<Rightarrow> event list \<Rightarrow> viewRaw option \<times> event list" where
  "findView env tableId withView tr =
     (case withView of
        None \<Rightarrow> (None, tr)
      | Some w \<Rightarrow>
          (case wv_viewId w of
             None \<Rightarrow> (None, tr)
           | Some v \<Rightarrow>
               (if v = [] then (None, tr)
                else (viewFindFirst env tableId v, tr @ [ViewFindFirst tableId v]))))"

text \<open>\<open>getFieldsData\<close>\<close>

definition getFieldsData ::
  "'c env \<Rightarrow> string \<Rightarrow> string list option \<Rightarrow> event list
     \<Rightarrow> ('c IFieldInstance list \<times> (string \<rightharpoonup> 'c IFieldInstance)) \<times> event list" where
  "getFieldsData env tableId fieldIds tr =
     (let fieldInstances = fieldFindMany env tableId fieldIds in
      ((fieldInstances, fieldInstanceMapOf fieldInstances), tr @ [FieldFindMany tableId]))"

text \<open>\<open>getDbTableName\<close>: \<open>findUniqueOrThrow\<close> throws for an unknown table.\<close>

definition getDbTableName ::
  "'c env \<Rightarrow> string \<Rightarrow> event list \<Rightarrow> (error + string) \<times> event list" where
  "getDbTableName env tableId tr =
     (case tableMetaFind env tableId of
        None \<Rightarrow> (Inl NotFound, tr @ [TableMetaFind tableId])
      | Some dbTableName \<Rightarrow> (Inr dbTableName, tr @ [TableMetaFind tableId]))"

text \<open>\<open>filterFieldInstances\<close>\<close>

definition filterFieldInstances ::
  "'c IFieldInstance list \<Rightarrow> IWithView option \<Rightarrow> string list option \<Rightarrow> 'c IFieldInstance list" where
  "filterFieldInstances fieldInstances withView withFieldIds =
     (let targetFieldIds =
            (case (case withView of None \<Rightarrow> None | Some w \<Rightarrow> wv_customFieldStats w) of
               Some stats \<Rightarrow> Some (map cfs_fieldId stats)
             | None \<Rightarrow> withFieldIds)
      in case targetFieldIds of
           Some (t # ts) \<Rightarrow> filter (\<lambda>instance. field_id instance \<in> set (t # ts)) fieldInstances
         | _ \<Rightarrow> fieldInstances)"

text \<open>
  \<open>getStatisticFields\<close>: the callback of its \<open>forEach\<close>, on the list computed so far
  (\<open>None\<close> while it is \<open>undefined\<close>), and the loop.
\<close>

definition statisticFieldStep ::
  "IColumnMeta option \<Rightarrow> ICustomFieldStats list option \<Rightarrow> 'c IFieldInstance
     \<Rightarrow> IAggregationField list option \<Rightarrow> IAggregationField list option" where
  "statisticFieldStep columnMeta customFieldStats fieldInstance calculated =
     (let fieldId = field_id fieldInstance;
          viewColumnMeta = (case columnMeta of None \<Rightarrow> None | Some cm \<Rightarrow> cm fieldId);
          grouped =
            (case customFieldStats of
               None \<Rightarrow> None
             | Some stats \<Rightarrow>
                 (case filter (\<lambda>item. cfs_fieldId item = fieldId) stats of
                    [] \<Rightarrow> None
                  | g # gs \<Rightarrow> Some (g # gs)))
      in if viewColumnMeta = None \<and> grouped = None then calculated
         else
           (let hidden = (case viewColumnMeta of None \<Rightarrow> False | Some m \<Rightarrow> meta_hidden m);
                statisticFunc =
                  (case viewColumnMeta of None \<Rightarrow> None | Some m \<Rightarrow> meta_statisticFunc m);
                statisticFuncList =
                  (case grouped of
                     None \<Rightarrow> []
                   | Some items \<Rightarrow> List.map_filter cfs_statisticFunc items);
                funcList =
                  (if statisticFuncList \<noteq> [] then statisticFuncList
                   else (case statisticFunc of None \<Rightarrow> [] | Some f \<Rightarrow> [f]))
            in if \<not> hidden \<and> funcList \<noteq> []
               then Some ((case calculated of None \<Rightarrow> [] | Some fs \<Rightarrow> fs) @
                      map (\<lambda>item. \<lparr>agg_fieldId = fieldId, agg_statisticFunc = item\<rparr>) funcList)
               else calculated))"

definition getStatisticFields ::
  "'c IFieldInstance list \<Rightarrow> IColumnMeta option \<Rightarrow> ICustomFieldStats list option
     \<Rightarrow> IAggregationField list option" where
  "getStatisticFields fieldInstances columnMeta customFieldStats =
     fold (statisticFieldStep columnMeta customFieldStats) fieldInstances None"

text \<open>
  \<open>buildStatisticsData\<close>. The merge runs when the view has a filter or the caller gave
  one; the column meta is parsed when it is a non-empty text.
\<close>

definition buildStatisticsData ::
  "'c env \<Rightarrow> 'c IFieldInstance list \<Rightarrow> viewRaw option \<Rightarrow> IWithView option
     \<Rightarrow> error + IStatisticsData" where
  "buildStatisticsData env filteredFieldInstances view withView =
     (let viewFilter = (case view of None \<Rightarrow> None | Some v \<Rightarrow> view_filter v);
          customFilter = (case withView of None \<Rightarrow> None | Some w \<Rightarrow> wv_customFilter w);
          customFieldStats =
            (case withView of None \<Rightarrow> None | Some w \<Rightarrow> wv_customFieldStats w);
          viewId = (case view of None \<Rightarrow> None | Some v \<Rightarrow> Some (view_id v));
          viewColumnMeta = (case view of None \<Rightarrow> None | Some v \<Rightarrow> view_columnMeta v)
      in case (if truthyStr viewFilter \<or> customFilter \<noteq> None
               then mergeWithDefaultFilter env viewFilter customFilter else Inr None) of
           Inl e \<Rightarrow> Inl e
         | Inr filter' \<Rightarrow>
             (if truthyStr viewId \<or> customFieldStats \<noteq> None then
                (case (case viewColumnMeta of
                         None \<Rightarrow> Inr None
                       | Some meta \<Rightarrow>
                           (if meta = [] then Inr None else parseColumnMeta env meta)) of
                   Inl e \<Rightarrow> Inl e
                 | Inr columnMeta \<Rightarrow>
                     Inr \<lparr>sd_viewId = viewId, sd_filter = filter',
                          sd_statisticFields =
                            getStatisticFields filteredFieldInstances columnMeta
                              customFieldStats\<rparr>)
              else Inr \<lparr>sd_viewId = viewId, sd_filter = filter', sd_statisticFields = None\<rparr>))"

text \<open>\<open>fetchStatisticsParams\<close>\<close>

definition fetchStatisticsParams ::
  "'c env \<Rightarrow> string \<Rightarrow> IWithView option \<Rightarrow> string list option \<Rightarrow> event list
     \<Rightarrow> (error + IStatisticsData \<times> (string \<rightharpoonup> 'c IFieldInstance)) \<times> event list" where
  "fetchStatisticsParams env tableId withView withFieldIds tr =
     (case findView env tableId withView tr of
        (view, tr1) \<Rightarrow>
          (case getFieldsData env tableId None tr1 of
             ((fieldInstances, fieldInstanceMap), tr2) \<Rightarrow>
               (case buildStatisticsData env
                       (filterFieldInstances fieldInstances withView withFieldIds)
                       view withView of
                  Inl e \<Rightarrow> (Inl e, tr2)
                | Inr statisticsData \<Rightarrow> (Inr (statisticsData, fieldInstanceMap), tr2))))"

text \<open>\<open>getRowCount\<close>: build the count statement and execute it.\<close>

definition getRowCount ::
  "'c env \<Rightarrow> queryBuilder \<Rightarrow> event list \<Rightarrow> row list \<times> event list" where
  "getRowCount env queryBuilder tr =
     (queryRawUnsafe env (rowCountSql queryBuilder), tr @ [QueryRaw (rowCountSql queryBuilder)])"

text \<open>\<open>handleRowCount\<close>\<close>

definition handleRowCount ::
  "'c env \<Rightarrow> string \<Rightarrow> string \<Rightarrow> (string \<rightharpoonup> 'c IFieldInstance) \<Rightarrow> IFilter option
     \<Rightarrow> linkCell option \<Rightarrow> string option \<Rightarrow> event list \<Rightarrow> row list \<times> event list" where
  "handleRowCount env tableId dbTableName fieldInstanceMap filter' filterLinkCellCandidate
       withUserId tr =
     (let queryBuilder = knex dbTableName;
          queryBuilder1 =
            (case filter' of
               None \<Rightarrow> queryBuilder
             | Some f \<Rightarrow> filterQuery env fieldInstanceMap f withUserId queryBuilder)
      in if truthyLink filterLinkCellCandidate
         then getRowCount env
                (buildLinkCandidateQuery env tableId (the filterLinkCellCandidate) queryBuilder1)
                (tr @ [LinkCandidateQuery tableId (the filterLinkCellCandidate)])
         else getRowCount env queryBuilder1 tr)"

text \<open>\<open>Number(rawRowCountData[0]?.count ?? 0)\<close>\<close>

definition decodeRowCount :: "jsrt \<Rightarrow> row list \<Rightarrow> jsval" where
  "decodeRowCount rt rawRowCountData =
     js_Number rt
       (nullish (case rawRowCountData of [] \<Rightarrow> JUndefined | r # rs \<Rightarrow> getProp r ''count'')
          (JNum 0))"

text \<open>\<open>performRowCount\<close>\<close>

definition performRowCount ::
  "'c env \<Rightarrow> string \<Rightarrow> IQueryBaseRo \<Rightarrow> event list \<Rightarrow> (error + IRawRowCountValue) \<times> event list" where
  "performRowCount env tableId queryRo tr =
     (case fetchStatisticsParams env tableId
             (Some \<lparr>wv_viewId = ro_viewId queryRo, wv_customFilter = ro_filter queryRo,
                    wv_customFieldStats = None\<rparr>) None tr of
        (Inl e, tr1) \<Rightarrow> (Inl e, tr1)
      | (Inr (statisticsData, fieldInstanceMap), tr1) \<Rightarrow>
          (case getDbTableName env tableId tr1 of
             (Inl e, tr2) \<Rightarrow> (Inl e, tr2)
           | (Inr dbTableName, tr2) \<Rightarrow>
               (if truthyLink (ro_filterLinkCellSelected queryRo) then
                  (let ids = getLinkSelectedRecordIds env (the (ro_filterLinkCellSelected queryRo))
                   in (Inr \<lparr>rowCount = JNum (of_nat (length ids))\<rparr>,
                       tr2 @ [LinkSelectedRecordIds (the (ro_filterLinkCellSelected queryRo))]))
                else
                  (case handleRowCount env tableId dbTableName fieldInstanceMap
                          (sd_filter statisticsData) (ro_filterLinkCellCandidate queryRo)
                          (currentUserId env) tr2 of
                     (rawRowCountData, tr3) \<Rightarrow>
                       (Inr \<lparr>rowCount = decodeRowCount (runtime env) rawRowCountData\<rparr>, tr3)))))"

text \<open>
  The statement of the pre-check: one \<open>countDistinct\<close> for each group field id the
  lookup map knows, added to the builder it is given.
\<close>

definition distinctSql ::
  "string list \<Rightarrow> (string \<rightharpoonup> 'c IFieldInstance) \<Rightarrow> queryBuilder \<Rightarrow> queryBuilder" where
  "distinctSql fieldIds fieldInstanceMap queryBuilder =
     fold (\<lambda>fieldId qb.
             (case fieldInstanceMap fieldId of
                None \<Rightarrow> qb
              | Some field \<Rightarrow> countDistinct (columnOf field) qb))
       fieldIds queryBuilder"

text \<open>\<open>distinctCount > this.thresholdConfig.maxGroupPoints\<close>: false of \<open>NaN\<close>.\<close>

fun greaterThan :: "jsval \<Rightarrow> real \<Rightarrow> bool" where
  "greaterThan (JNum r) m = (m < r)"
| "greaterThan v m = False"

text \<open>
  \<open>checkGroupingOverLimit\<close>: \<open>distinctResult[0].count\<close> throws a \<open>TypeError\<close> when
  the store returns no row.
\<close>

definition checkGroupingOverLimit ::
  "'c env \<Rightarrow> string list \<Rightarrow> (string \<rightharpoonup> 'c IFieldInstance) \<Rightarrow> queryBuilder \<Rightarrow> event list
     \<Rightarrow> (error + bool) \<times> event list" where
  "checkGroupingOverLimit env fieldIds fieldInstanceMap queryBuilder tr =
     (let statement = distinctSql fieldIds fieldInstanceMap queryBuilder in
      case queryRawUnsafe env statement of
        [] \<Rightarrow> (Inl TypeError, tr @ [QueryRaw statement])
      | r # rs \<Rightarrow>
          (Inr (greaterThan (js_Number (runtime env) (getProp r ''count''))
                  (maxGroupPoints env)),
           tr @ [QueryRaw statement]))"

text \<open>
  The statement of the grouped query: the sort of the group-by list, the count aliased
  \<open>__c\<close>, and for each known group field its column, selected and grouped by.
\<close>

definition groupSql ::
  "'c env \<Rightarrow> groupItem list \<Rightarrow> (string \<rightharpoonup> 'c IFieldInstance) \<Rightarrow> queryBuilder \<Rightarrow> queryBuilder" where
  "groupSql env groupBy fieldInstanceMap queryBuilder =
     fold (\<lambda>fieldId qb.
             (case fieldInstanceMap fieldId of
                None \<Rightarrow> qb
              | Some field \<Rightarrow> groupByRaw (columnOf field) (selectColumn (columnOf field) qb)))
       (map group_fieldId groupBy)
       (countAs ''__c'' Star (sortQuery env fieldInstanceMap groupBy queryBuilder))"

text \<open>
  \<open>getGroupPoints\<close>. The result \<open>null\<close> is \<open>None\<close>. The builder of the grouped query
  and the builder of the pre-check both start from the table and take the merged filter.
  A group field id that the lookup map does not know gives \<open>undefined\<close> among the group
  fields, and destructuring it throws a \<open>TypeError\<close> at the first result row.
\<close>

definition getGroupPoints ::
  "'c env \<Rightarrow> string \<Rightarrow> IGroupPointsRo option \<Rightarrow> event list
     \<Rightarrow> (error + 'c IGroupPoint list option) \<times> event list" where
  "getGroupPoints env tableId query tr =
     (let viewId = (case query of None \<Rightarrow> None | Some q \<Rightarrow> gp_viewId q);
          extraGroupBy = (case query of None \<Rightarrow> None | Some q \<Rightarrow> gp_groupBy q);
          filter' = (case query of None \<Rightarrow> None | Some q \<Rightarrow> gp_filter q)
      in if \<not> truthyStr viewId then (Inr None, tr)
         else
           (case parseGroup env extraGroupBy of
              None \<Rightarrow> (Inr None, tr)
            | Some [] \<Rightarrow> (Inr None, tr)
            | Some (g # gs) \<Rightarrow>
                (case findView env tableId
                        (Some \<lparr>wv_viewId = viewId, wv_customFilter = None,
                               wv_customFieldStats = None\<rparr>) tr of
                   (view, tr1) \<Rightarrow>
                (case getFieldsData env tableId None tr1 of
                   ((fieldInstances, fieldInstanceMap), tr2) \<Rightarrow>
                (case getDbTableName env tableId tr2 of
                   (Inl e, tr3) \<Rightarrow> (Inl e, tr3)
                 | (Inr dbTableName, tr3) \<Rightarrow>
                (case mergeWithDefaultFilter env
                        (case view of None \<Rightarrow> None | Some v \<Rightarrow> view_filter v) filter' of
                   Inl e \<Rightarrow> (Inl e, tr3)
                 | Inr mergedFilter \<Rightarrow>
                (let groupFieldIds = map group_fieldId (g # gs);
                     queryBuilder =
                       (case mergedFilter of
                          None \<Rightarrow> knex dbTableName
                        | Some f \<Rightarrow> filterQuery env fieldInstanceMap f None (knex dbTableName));
                     distinctQueryBuilder =
                       (case mergedFilter of
                          None \<Rightarrow> knex dbTableName
                        | Some f \<Rightarrow> filterQuery env fieldInstanceMap f None (knex dbTableName))
                 in case checkGroupingOverLimit env groupFieldIds fieldInstanceMap
                           distinctQueryBuilder tr3 of
                      (Inl e, tr4) \<Rightarrow> (Inl e, tr4)
                    | (Inr isGroupingOverLimit, tr4) \<Rightarrow>
                        (if isGroupingOverLimit then (Inl PayloadTooLarge, tr4)
                         else
                           (let statement = groupSql env (g # gs) fieldInstanceMap queryBuilder;
                                result = queryRawUnsafe env statement;
                                tr5 = tr4 @ [QueryRaw statement]
                            in case those (map fieldInstanceMap groupFieldIds) of
                                 Some groupFields \<Rightarrow>
                                   (Inr (Some (groupDbCollection2GroupPoints (string2Hash env)
                                                 (runtime env) result groupFields)), tr5)
                               | None \<Rightarrow>
                                   (if result = [] then (Inr (Some []), tr5)
                                    else (Inl TypeError, tr5)))))))))))"

section \<open>Notions used in the statements\<close>

text \<open>A field is keyed by \<open>k\<close> when the reducer writes it under \<open>k\<close>.\<close>

definition keyed :: "string \<Rightarrow> 'c IFieldInstance \<Rightarrow> bool" where
  "keyed k field = (field_id field = k \<or> field_name field = k)"

text \<open>A group point that is a row marker or a header at depth two or deeper.\<close>

fun deepOrRow :: "'c IGroupPoint \<Rightarrow> bool" where
  "deepOrRow (Header i d v) = (2 \<le> d)"
| "deepOrRow (Row c) = True"

text \<open>The headers of one row for a list of fields paired with their depths.\<close>

definition headersOf ::
  "(string \<Rightarrow> jsval) \<Rightarrow> jsrt \<Rightarrow> row \<Rightarrow> (nat \<times> 'c IFieldInstance) list \<Rightarrow> 'c IGroupPoint list" where
  "headersOf h rt item ps =
     map (\<lambda>p. headerPoint h rt (fst p) (snd p) (fieldValueOf rt item (dbFieldName (snd p))))
       ps"

text \<open>
  The maximal runs of consecutive elements whose values are strictly equal, each to the
  next, in order.
\<close>

fun runsOf :: "('a \<Rightarrow> jsval) \<Rightarrow> 'a list \<Rightarrow> 'a list list" where
  "runsOf val [] = []"
| "runsOf val [x] = [[x]]"
| "runsOf val (x # y # xs) =
     (if strictEq (val x) (val y)
      then (case runsOf val (y # xs) of
              [] \<Rightarrow> [[x]]
            | run # rest \<Rightarrow> (x # run) # rest)
      else [x] # runsOf val (y # xs))"

text \<open>
  The points of one run under a single group field: the header of the run's first row,
  then one row marker for each row of the run.
\<close>

definition runPoints ::
  "(string \<Rightarrow> jsval) \<Rightarrow> jsrt \<Rightarrow> 'c IFieldInstance \<Rightarrow> row list \<Rightarrow> 'c IGroupPoint list" where
  "runPoints h rt f run =
     (case run of
        [] \<Rightarrow> []
      | item # items \<Rightarrow>
          headerPoint h rt 0 f (fieldValueOf rt item (dbFieldName f)) #
          map (\<lambda>r. Row (js_Number rt (getProp r ''__c''))) (item # items))"

text \<open>
  The points that rows add under a single group field, given the depth-0 value seen
  last.
\<close>

fun pointsAfter ::
  "(string \<Rightarrow> jsval) \<Rightarrow> jsrt \<Rightarrow> 'c IFieldInstance \<Rightarrow> jsval option \<Rightarrow> row list
     \<Rightarrow> 'c IGroupPoint list" where
  "pointsAfter h rt f seen [] = []"
| "pointsAfter h rt f seen (r # rs) =
     (if sameAs seen (fieldValueOf rt r (dbFieldName f)) then []
      else [headerPoint h rt 0 f (fieldValueOf rt r (dbFieldName f))]) @
     Row (js_Number rt (getProp r ''__c'')) #
     pointsAfter h rt f (Some (fieldValueOf rt r (dbFieldName f))) rs"

section \<open>A concrete dataset\<close>

text \<open>
  A text field whose cell value is its raw value, and a store with one table, one view
  and one field, whose raw queries all answer a single row with \<open>count\<close> 7; the record
  service knows five selected ids, and the threshold is 5.
\<close>

definition textField :: "string \<Rightarrow> string \<Rightarrow> jsval IFieldInstance" where
  "textField i n =
     \<lparr>field_id = i, field_name = n, dbFieldName = n,
      dbFieldType = OtherDbFieldType ''TEXT'', convertDBValue2CellValue = (\<lambda>v. v)\<rparr>"

definition exampleEnv :: "jsval env" where
  "exampleEnv =
     \<lparr>viewFindFirst =
        (\<lambda>t v. Some \<lparr>view_id = v, view_columnMeta = None, view_filter = None,
                       view_group = None\<rparr>),
      fieldFindMany = (\<lambda>t ids. [textField ''fldStatus'' ''status'']),
      tableMetaFind = (\<lambda>t. if t = ''tbl1'' then Some ''tbl1_db'' else None),
      queryRawUnsafe = (\<lambda>q. [[''count'' \<mapsto> JBigInt 7]]),
      filterQuery =
        (\<lambda>m f u qb. qb\<lparr>qb_wheres := qb_wheres qb @ [case f of Filter s \<Rightarrow> s]\<rparr>),
      sortQuery = (\<lambda>m g qb. qb\<lparr>qb_orders := qb_orders qb @ map group_fieldId g\<rparr>),
      getLinkSelectedRecordIds = (\<lambda>l. [''rec1'', ''rec2'', ''rec3'', ''rec4'', ''rec5'']),
      buildLinkCandidateQuery = (\<lambda>t l qb. qb),
      mergeWithDefaultFilter = (\<lambda>v f. Inr f),
      parseGroup = (\<lambda>g. g),
      parseColumnMeta = (\<lambda>s. Inr None),
      string2Hash = (\<lambda>s. JNum 0),
      runtime = \<lparr>numericToString = (\<lambda>v. ''0''), toNumberOther = (\<lambda>v. JNaN)\<rparr>,
      maxGroupPoints = 5,
      currentUserId = None\<rparr>"

definition exampleGroupQuery :: IGroupPointsRo where
  "exampleGroupQuery =
     \<lparr>gp_viewId = Some ''viw1'',
      gp_groupBy = Some [\<lparr>group_fieldId = ''fldStatus'', group_order = Asc\<rparr>],
      gp_filter = None\<rparr>"

definition exampleSelectedQuery :: IQueryBaseRo where
  "exampleSelectedQuery =
     \<lparr>ro_viewId = Some ''viw1'', ro_filter = None, ro_filterLinkCellCandidate = None,
      ro_filterLinkCellSelected = Some (LinkField ''fldLink'')\<rparr>"

definition exampleCountQuery :: IQueryBaseRo where
  "exampleCountQuery =
     \<lparr>ro_viewId = Some ''viw1'', ro_filter = Some (Filter ''status is A''),
      ro_filterLinkCellCandidate = None, ro_filterLinkCellSelected = None\<rparr>"

definition statusRowA :: row where
  "statusRowA = [''status'' \<mapsto> JStr ''A'', ''__c'' \<mapsto> JBigInt 2]"

definition statusRowB :: row where
  "statusRowB = [''status'' \<mapsto> JStr ''B'', ''__c'' \<mapsto> JBigInt 1]"

definition statusRowA3 :: row where
  "statusRowA3 = [''status'' \<mapsto> JStr ''A'', ''__c'' \<mapsto> JBigInt 3]"

text \<open>
  A date field, and a row whose \<open>created\<close> value is a \<open>Date\<close> object: two instants
  within one second differ in \<open>toISOString()\<close> and agree in \<open>String()\<close>.
\<close>

definition createdField :: "jsval IFieldInstance" where
  "createdField =
     \<lparr>field_id = ''fldCreated'', field_name = ''created'', dbFieldName = ''created'',
      dbFieldType = OtherDbFieldType ''DATETIME'', convertDBValue2CellValue = (\<lambda>v. v)\<rparr>"

definition createdRow :: "string \<Rightarrow> int \<Rightarrow> row" where
  "createdRow t n =
     [''created'' \<mapsto> JDate t ''Tue Jan 02 2024 10:00:00 GMT+0000'', ''__c'' \<mapsto> JBigInt n]"

definition rowXA :: row where
  "rowXA = [''category'' \<mapsto> JStr ''X'', ''status'' \<mapsto> JStr ''A'', ''__c'' \<mapsto> JBigInt 2]"

definition rowXB :: row where
  "rowXB = [''category'' \<mapsto> JStr ''X'', ''status'' \<mapsto> JStr ''B'', ''__c'' \<mapsto> JBigInt 1]"

definition rowYA :: row where
  "rowYA = [''category'' \<mapsto> JStr ''Y'', ''status'' \<mapsto> JStr ''A'', ''__c'' \<mapsto> JBigInt 1]"

definition rowXAP :: "int \<Rightarrow> row" where
  "rowXAP n =
     [''category'' \<mapsto> JStr ''X'', ''status'' \<mapsto> JStr ''A'', ''owner'' \<mapsto> JStr ''P'',
      ''__c'' \<mapsto> JBigInt n]"

section \<open>Auxiliary facts\<close>

subsection \<open>Splitting and strict equality\<close>

lemma split_on_no_sep: "c \<notin> set s \<Longrightarrow> split_on c s = [s]"
  by (induction s) auto

lemma split_on_append:
  "c \<notin> set a \<Longrightarrow> split_on c (a @ c # b) = a # split_on c b"
  by (induction a) auto

lemma strictEq_eq: "strictEq u v \<Longrightarrow> u = v"
  by (cases u) auto

lemma sameAs_iff: "sameAs x v \<longleftrightarrow> (\<exists>u. x = Some u \<and> strictEq u v)"
  by (cases x) auto

subsection \<open>One row of the decoding, for one and for two group fields\<close>

lemma itemStep_one:
  "itemStep h rt [f] item st =
     (let v = fieldValueOf rt item (dbFieldName f) in
      if sameAs (firstDbFieldValue st) v
      then st\<lparr>groupPoints := groupPoints st @ [Row (js_Number rt (getProp item ''__c''))]\<rparr>
      else st\<lparr>firstDbFieldValue := Some v, secondDbFieldValue := None,
              groupPoints := groupPoints st @
                [headerPoint h rt 0 f v, Row (js_Number rt (getProp item ''__c''))]\<rparr>)"
  by (simp add: itemStep_def fieldStep_def Let_def)

lemma itemStep_two:
  "itemStep h rt [f0, f1] item st =
     (let v0 = fieldValueOf rt item (dbFieldName f0);
          v1 = fieldValueOf rt item (dbFieldName f1);
          marker = Row (js_Number rt (getProp item ''__c'')) in
      if sameAs (firstDbFieldValue st) v0
      then (if sameAs (secondDbFieldValue st) v1
            then st\<lparr>groupPoints := groupPoints st @ [marker]\<rparr>
            else st\<lparr>secondDbFieldValue := Some v1,
                    groupPoints := groupPoints st @ [headerPoint h rt 1 f1 v1, marker]\<rparr>)
      else st\<lparr>firstDbFieldValue := Some v0, secondDbFieldValue := Some v1,
              groupPoints := groupPoints st @
                [headerPoint h rt 0 f0 v0, headerPoint h rt 1 f1 v1, marker]\<rparr>)"
  by (simp add: itemStep_def fieldStep_def Let_def)

lemma first_after_one:
  "firstDbFieldValue (itemStep h rt [f] p st) = Some (fieldValueOf rt p (dbFieldName f))"
  by (auto simp: itemStep_one Let_def sameAs_iff dest: strictEq_eq)

lemma after_two:
  "firstDbFieldValue (itemStep h rt [f0, f1] p st) = Some (fieldValueOf rt p (dbFieldName f0))
   \<and> secondDbFieldValue (itemStep h rt [f0, f1] p st) =
       Some (fieldValueOf rt p (dbFieldName f1))"
  by (auto simp: itemStep_two Let_def sameAs_iff dest: strictEq_eq)

lemma decode_snoc:
  "groupDbCollection2GroupPoints h rt (rows @ [r]) fs =
     groupPoints (itemStep h rt fs r (fold (itemStep h rt fs) rows initialGroupState))"
  by (simp add: groupDbCollection2GroupPoints_def)

lemma decode_snoc2:
  "groupDbCollection2GroupPoints h rt (rows @ [p, r]) fs =
     groupPoints (itemStep h rt fs r (itemStep h rt fs p
        (fold (itemStep h rt fs) rows initialGroupState)))"
  by (simp add: groupDbCollection2GroupPoints_def)

lemma decode_nil: "groupDbCollection2GroupPoints h rt [] fs = []"
  by (simp add: groupDbCollection2GroupPoints_def initialGroupState_def)

lemma one_level_first:
  "groupDbCollection2GroupPoints h rt [r] [f] =
     [headerPoint h rt 0 f (fieldValueOf rt r (dbFieldName f)),
      Row (js_Number rt (getProp r ''__c''))]"
  by (simp add: groupDbCollection2GroupPoints_def itemStep_one initialGroupState_def Let_def)

lemma one_level_step:
  "groupDbCollection2GroupPoints h rt (rows @ [p, r]) [f] =
     groupDbCollection2GroupPoints h rt (rows @ [p]) [f] @
       (if strictEq (fieldValueOf rt p (dbFieldName f)) (fieldValueOf rt r (dbFieldName f))
        then [] else [headerPoint h rt 0 f (fieldValueOf rt r (dbFieldName f))]) @
       [Row (js_Number rt (getProp r ''__c''))]"
proof -
  let ?S = "itemStep h rt [f] p (fold (itemStep h rt [f]) rows initialGroupState)"
  have "firstDbFieldValue ?S = Some (fieldValueOf rt p (dbFieldName f))"
    by (rule first_after_one)
  then show ?thesis
    unfolding decode_snoc2 decode_snoc
    by (simp add: itemStep_one [of h rt f r] Let_def)
qed

lemma one_level_all_headers:
  assumes "successively
             (\<lambda>p r. \<not> strictEq (fieldValueOf rt p (dbFieldName f))
                       (fieldValueOf rt r (dbFieldName f))) rows"
  shows "groupDbCollection2GroupPoints h rt rows [f] =
           concat (map (\<lambda>item. [headerPoint h rt 0 f (fieldValueOf rt item (dbFieldName f)),
                                 Row (js_Number rt (getProp item ''__c''))]) rows)"
  using assms
proof (induction rows rule: rev_induct)
  case Nil
  show ?case by (simp add: decode_nil)
next
  case (snoc r rows)
  show ?case
  proof (cases rows rule: rev_cases)
    case Nil
    then show ?thesis by (simp add: one_level_first)
  next
    case (snoc rows' p)
    from snoc.prems snoc
    have adj: "\<not> strictEq (fieldValueOf rt p (dbFieldName f)) (fieldValueOf rt r (dbFieldName f))"
      and pre: "successively
                  (\<lambda>p r. \<not> strictEq (fieldValueOf rt p (dbFieldName f))
                            (fieldValueOf rt r (dbFieldName f))) rows"
      by (simp_all add: successively_append_iff)
    have "groupDbCollection2GroupPoints h rt (rows @ [r]) [f] =
            groupDbCollection2GroupPoints h rt rows [f] @
              [headerPoint h rt 0 f (fieldValueOf rt r (dbFieldName f)),
               Row (js_Number rt (getProp r ''__c''))]"
      using one_level_step [of h rt rows' p r f] adj snoc by simp
    then show ?thesis
      using snoc.IH [OF pre] by simp
  qed
qed

lemma fold_one_points:
  "groupPoints (fold (itemStep h rt [f]) rows st) =
     groupPoints st @ pointsAfter h rt f (firstDbFieldValue st) rows"
proof (induction rows arbitrary: st)
  case Nil
  show ?case by simp
next
  case (Cons r rows)
  have "groupPoints (itemStep h rt [f] r st) =
          groupPoints st @
            (if sameAs (firstDbFieldValue st) (fieldValueOf rt r (dbFieldName f)) then []
             else [headerPoint h rt 0 f (fieldValueOf rt r (dbFieldName f))]) @
            [Row (js_Number rt (getProp r ''__c''))]"
    by (simp add: itemStep_one Let_def)
  then show ?case
    by (simp add: Cons.IH first_after_one)
qed

lemma decode_one_pointsAfter:
  "groupDbCollection2GroupPoints h rt rows [f] = pointsAfter h rt f None rows"
  by (simp add: groupDbCollection2GroupPoints_def fold_one_points initialGroupState_def)

lemma runsOf_head: "\<exists>run rest. runsOf val (y # ys) = (y # run) # rest"
proof (induction ys arbitrary: y)
  case Nil
  show ?case by simp
next
  case (Cons z zs)
  from Cons.IH [of z] obtain run rest where "runsOf val (z # zs) = (z # run) # rest"
    by blast
  then show ?case by simp
qed

lemma runPoints_Cons:
  "runPoints h rt f (item # items) =
     headerPoint h rt 0 f (fieldValueOf rt item (dbFieldName f)) #
     Row (js_Number rt (getProp item ''__c'')) #
     map (\<lambda>r. Row (js_Number rt (getProp r ''__c''))) items"
  by (simp add: runPoints_def)

lemma runs_points:
  "concat (map (runPoints h rt f)
     (runsOf (\<lambda>item. fieldValueOf rt item (dbFieldName f)) (r # rs))) =
     headerPoint h rt 0 f (fieldValueOf rt r (dbFieldName f)) #
     Row (js_Number rt (getProp r ''__c'')) #
     pointsAfter h rt f (Some (fieldValueOf rt r (dbFieldName f))) rs"
proof (induction rs arbitrary: r)
  case Nil
  show ?case by (simp add: runPoints_Cons)
next
  case (Cons y ys)
  let ?val = "\<lambda>item. fieldValueOf rt item (dbFieldName f)"
  obtain run rest where rr: "runsOf ?val (y # ys) = (y # run) # rest"
    using runsOf_head [of ?val y ys] by blast
  from Cons.IH [of y] rr
  have rest: "map (\<lambda>r. Row (js_Number rt (getProp r ''__c''))) run @
              concat (map (runPoints h rt f) rest) =
            pointsAfter h rt f (Some (?val y)) ys"
    by (simp add: runPoints_Cons)
  show ?case
  proof (cases "strictEq (?val r) (?val y)")
    case True
    then show ?thesis using rr rest by (simp add: runPoints_Cons)
  next
    case False
    then show ?thesis using Cons.IH [of y] by (simp add: runPoints_Cons)
  qed
qed

lemma one_level_runs:
  "groupDbCollection2GroupPoints h rt rows [f] =
     concat (map (runPoints h rt f)
       (runsOf (\<lambda>item. fieldValueOf rt item (dbFieldName f)) rows))"
proof (cases rows)
  case Nil
  then show ?thesis by (simp add: decode_nil)
next
  case (Cons r rs)
  then show ?thesis
    by (simp add: runs_points decode_one_pointsAfter)
qed

lemma one_level_two_row_run:
  "groupDbCollection2GroupPoints h rt [statusRowA, statusRowA3, statusRowB]
     [textField ''fldStatus'' ''status''] =
   [Header (js_String rt (h ''fldStatus_A'')) 0 (JStr ''A''), Row (JNum 2), Row (JNum 3),
    Header (js_String rt (h ''fldStatus_B'')) 0 (JStr ''B''), Row (JNum 1)]"
  by (simp add: groupDbCollection2GroupPoints_def itemStep_one initialGroupState_def Let_def
      textField_def fieldValueOf_def getProp_def headerPoint_def statusRowA_def
      statusRowA3_def statusRowB_def)

lemma one_level_date_run:
  "groupDbCollection2GroupPoints h rt
     [createdRow ''2024-01-02T10:00:00.100Z'' 2, createdRow ''2024-01-02T10:00:00.200Z'' 3]
     [createdField] =
   [Header (js_String rt (h ''fldCreated_Tue Jan 02 2024 10:00:00 GMT+0000'')) 0
      (JStr ''Tue Jan 02 2024 10:00:00 GMT+0000''),
    Row (JNum 2), Row (JNum 3)]"
  by (simp add: groupDbCollection2GroupPoints_def itemStep_one initialGroupState_def Let_def
      createdField_def fieldValueOf_def getProp_def headerPoint_def createdRow_def)

lemma two_level_first:
  "groupDbCollection2GroupPoints h rt [r] [f0, f1] =
     [headerPoint h rt 0 f0 (fieldValueOf rt r (dbFieldName f0)),
      headerPoint h rt 1 f1 (fieldValueOf rt r (dbFieldName f1)),
      Row (js_Number rt (getProp r ''__c''))]"
  by (simp add: groupDbCollection2GroupPoints_def itemStep_two initialGroupState_def Let_def)

lemma two_level_step:
  "groupDbCollection2GroupPoints h rt (rows @ [p, r]) [f0, f1] =
     groupDbCollection2GroupPoints h rt (rows @ [p]) [f0, f1] @
       (if \<not> strictEq (fieldValueOf rt p (dbFieldName f0)) (fieldValueOf rt r (dbFieldName f0))
        then [headerPoint h rt 0 f0 (fieldValueOf rt r (dbFieldName f0)),
              headerPoint h rt 1 f1 (fieldValueOf rt r (dbFieldName f1))]
        else if \<not> strictEq (fieldValueOf rt p (dbFieldName f1))
                     (fieldValueOf rt r (dbFieldName f1))
        then [headerPoint h rt 1 f1 (fieldValueOf rt r (dbFieldName f1))]
        else []) @
       [Row (js_Number rt (getProp r ''__c''))]"
proof -
  let ?S = "itemStep h rt [f0, f1] p (fold (itemStep h rt [f0, f1]) rows initialGroupState)"
  have "firstDbFieldValue ?S = Some (fieldValueOf rt p (dbFieldName f0))"
    and "secondDbFieldValue ?S = Some (fieldValueOf rt p (dbFieldName f1))"
    using after_two [of h rt f0 f1 p] by simp_all
  then show ?thesis
    unfolding decode_snoc2 decode_snoc
    by (simp add: itemStep_two [of h rt f0 f1 r] Let_def)
qed

lemma one_level_example:
  "groupDbCollection2GroupPoints h rt [statusRowA, statusRowB]
     [textField ''fldStatus'' ''status''] =
   [Header (js_String rt (h ''fldStatus_A'')) 0 (JStr ''A''), Row (JNum 2),
    Header (js_String rt (h ''fldStatus_B'')) 0 (JStr ''B''), Row (JNum 1)]"
  by (simp add: groupDbCollection2GroupPoints_def itemStep_one initialGroupState_def Let_def
      textField_def fieldValueOf_def getProp_def headerPoint_def statusRowA_def
      statusRowB_def)

lemma two_level_example:
  "groupDbCollection2GroupPoints h rt [rowXA, rowXB, rowYA]
     [textField ''fldCategory'' ''category'', textField ''fldStatus'' ''status''] =
   [Header (js_String rt (h ''fldCategory_X'')) 0 (JStr ''X''),
    Header (js_String rt (h ''fldStatus_A'')) 1 (JStr ''A''), Row (JNum 2),
    Header (js_String rt (h ''fldStatus_B'')) 1 (JStr ''B''), Row (JNum 1),
    Header (js_String rt (h ''fldCategory_Y'')) 0 (JStr ''Y''),
    Header (js_String rt (h ''fldStatus_A'')) 1 (JStr ''A''), Row (JNum 1)]"
  by (simp add: groupDbCollection2GroupPoints_def itemStep_two initialGroupState_def Let_def
      textField_def fieldValueOf_def getProp_def headerPoint_def rowXA_def rowXB_def
      rowYA_def)

subsection \<open>Headers at depth two and deeper\<close>

lemma fieldStep_deep:
  "filter deepOrRow (groupPoints (fieldStep h rt item (i, f) st)) =
     filter deepOrRow (groupPoints st) @
       (if 2 \<le> i then [headerPoint h rt i f (fieldValueOf rt item (dbFieldName f))] else [])"
  by (simp add: fieldStep_def Let_def headerPoint_def)

lemma fold_fieldStep_deep:
  "filter deepOrRow (groupPoints (fold (fieldStep h rt item) ps st)) =
     filter deepOrRow (groupPoints st) @ headersOf h rt item (filter (\<lambda>p. 2 \<le> fst p) ps)"
proof (induction ps arbitrary: st)
  case Nil
  then show ?case by (simp add: headersOf_def)
next
  case (Cons p ps)
  obtain i f where p: "p = (i, f)" by (cases p)
  show ?case
    by (simp add: Cons.IH p fieldStep_deep headersOf_def)
qed

lemma enumerate_filter_ge: "filter (\<lambda>p. n \<le> fst p) (enumerate n xs) = enumerate n xs"
  by (rule filter_True) (auto simp: in_set_enumerate_eq)

lemma enumerate_from_two:
  "filter (\<lambda>p. 2 \<le> fst p) (enumerate 0 fs) = enumerate 2 (drop 2 fs)"
proof (cases fs)
  case Nil
  then show ?thesis by simp
next
  case (Cons a as)
  show ?thesis
  proof (cases as)
    case Nil
    with Cons show ?thesis by simp
  next
    case (Cons b bs)
    have "filter (\<lambda>p. 2 \<le> fst p) (enumerate (Suc (Suc 0)) bs) = enumerate (Suc (Suc 0)) bs"
      using enumerate_filter_ge [of 2 bs] by (simp add: numeral_2_eq_2)
    with Cons \<open>fs = a # as\<close> show ?thesis by (simp add: numeral_2_eq_2)
  qed
qed

lemma itemStep_deep:
  "filter deepOrRow (groupPoints (itemStep h rt fs item st)) =
     filter deepOrRow (groupPoints st) @ headersOf h rt item (enumerate 2 (drop 2 fs)) @
       [Row (js_Number rt (getProp item ''__c''))]"
  by (simp add: itemStep_def Let_def fold_fieldStep_deep enumerate_from_two)

lemma fold_itemStep_deep:
  "filter deepOrRow (groupPoints (fold (itemStep h rt fs) rows st)) =
     filter deepOrRow (groupPoints st) @
       concat (map (\<lambda>item. headersOf h rt item (enumerate 2 (drop 2 fs)) @
                      [Row (js_Number rt (getProp item ''__c''))]) rows)"
  by (induction rows arbitrary: st) (simp_all add: itemStep_deep)

lemma decode_deep:
  "filter deepOrRow (groupDbCollection2GroupPoints h rt rows fs) =
     concat (map (\<lambda>item. headersOf h rt item (enumerate 2 (drop 2 fs)) @
                    [Row (js_Number rt (getProp item ''__c''))]) rows)"
  by (simp add: groupDbCollection2GroupPoints_def fold_itemStep_deep initialGroupState_def)

lemma three_level_example:
  "groupDbCollection2GroupPoints h rt [rowXAP 2, rowXAP 1]
     [textField ''fldCategory'' ''category'', textField ''fldStatus'' ''status'',
      textField ''fldOwner'' ''owner''] =
   [Header (js_String rt (h ''fldCategory_X'')) 0 (JStr ''X''),
    Header (js_String rt (h ''fldStatus_A'')) 1 (JStr ''A''),
    Header (js_String rt (h ''fldOwner_P'')) 2 (JStr ''P''), Row (JNum 2),
    Header (js_String rt (h ''fldOwner_P'')) 2 (JStr ''P''), Row (JNum 1)]"
  by (simp add: groupDbCollection2GroupPoints_def itemStep_def fieldStep_def
      initialGroupState_def Let_def textField_def fieldValueOf_def getProp_def
      headerPoint_def rowXAP_def)

subsection \<open>The lookup map\<close>

lemma put_field:
  "((m(field_id f \<mapsto> f))(field_name f \<mapsto> f)) k = (if keyed k f then Some f else m k)"
  by (auto simp: keyed_def)

lemma fold_fieldMap:
  "fold (\<lambda>field m. (m(field_id field \<mapsto> field))(field_name field \<mapsto> field)) fs m k =
     (case filter (keyed k) fs of [] \<Rightarrow> m k | g # gs \<Rightarrow> Some (last (g # gs)))"
proof (induction fs arbitrary: m)
  case Nil
  then show ?case by simp
next
  case (Cons f fs)
  have "fold (\<lambda>field m. (m(field_id field \<mapsto> field))(field_name field \<mapsto> field)) (f # fs) m k =
        (case filter (keyed k) fs of
           [] \<Rightarrow> ((m(field_id f \<mapsto> f))(field_name f \<mapsto> f)) k
         | g # gs \<Rightarrow> Some (last (g # gs)))"
    by (simp only: fold_simps o_apply Cons.IH)
  also have "\<dots> =
        (case filter (keyed k) (f # fs) of [] \<Rightarrow> m k | g # gs \<Rightarrow> Some (last (g # gs)))"
    by (simp only: put_field) (simp split: list.splits)
  finally show ?case .
qed

lemma map_last_keyed:
  "fieldInstanceMapOf fieldInstances k =
     (case filter (keyed k) fieldInstances of [] \<Rightarrow> None | g # gs \<Rightarrow> Some (last (g # gs)))"
  by (simp add: fieldInstanceMapOf_def fold_fieldMap)

lemma later_wins:
  assumes "keyed k b" and "filter (keyed k) zs = []"
  shows "fieldInstanceMapOf (ys @ b # zs) k = Some b"
proof -
  have eq: "filter (keyed k) (ys @ b # zs) = filter (keyed k) ys @ [b]"
    using assms by simp
  then obtain g gs where ggs: "filter (keyed k) (ys @ b # zs) = g # gs"
    by (cases "filter (keyed k) ys") auto
  have "last (g # gs) = b"
    using eq ggs by (metis last_snoc)
  then show ?thesis
    unfolding map_last_keyed ggs by (simp del: last.simps)
qed

subsection \<open>The calls the service makes\<close>

lemma rowCountSql_shape:
  "rowCountSql qb =
     \<lparr>qb_table = qb_table qb, qb_columns = [CountAs ''count'' Star],
      qb_joins = qb_joins qb, qb_wheres = qb_wheres qb, qb_groups = [], qb_havings = [],
      qb_orders = [], qb_counters = [], qb_limit = None, qb_offset = None\<rparr>"
  by (simp add: rowCountSql_def countAs_def clearOffset_def clearLimit_def clearOrder_def
      clearHaving_def clearGroup_def clearCounters_def clearSelect_def)

lemma fetch_trace:
  "filter isQueryRaw (snd (fetchStatisticsParams env tableId wv ids tr)) = filter isQueryRaw tr"
  by (simp add: fetchStatisticsParams_def findView_def getFieldsData_def Let_def
      split: option.splits sum.splits prod.splits)

lemma performRowCount_selected_result:
  assumes "ro_filterLinkCellSelected queryRo = Some selected"
    and "truthyLink (Some selected)"
  shows "performRowCount env tableId queryRo tr =
    (case fetchStatisticsParams env tableId
            (Some \<lparr>wv_viewId = ro_viewId queryRo, wv_customFilter = ro_filter queryRo,
                   wv_customFieldStats = None\<rparr>) None tr of
       (Inl e, tr1) \<Rightarrow> (Inl e, tr1)
     | (Inr p, tr1) \<Rightarrow>
         (case tableMetaFind env tableId of
            None \<Rightarrow> (Inl NotFound, tr1 @ [TableMetaFind tableId])
          | Some n \<Rightarrow>
              (Inr \<lparr>rowCount = JNum (of_nat (length (getLinkSelectedRecordIds env selected)))\<rparr>,
               tr1 @ [TableMetaFind tableId, LinkSelectedRecordIds selected])))"
  using assms
  by (simp add: performRowCount_def getDbTableName_def Let_def
      split: prod.splits sum.splits option.splits)

lemma performRowCount_count_result:
  assumes "\<not> truthyLink (ro_filterLinkCellSelected queryRo)"
    and "fetchStatisticsParams env tableId
           (Some \<lparr>wv_viewId = ro_viewId queryRo, wv_customFilter = ro_filter queryRo,
                  wv_customFieldStats = None\<rparr>) None tr = (Inr (sd, fm), tr1)"
    and "tableMetaFind env tableId = Some name"
  shows "\<exists>qb tr'. performRowCount env tableId queryRo tr =
           (Inr \<lparr>rowCount = decodeRowCount (runtime env)
                                (queryRawUnsafe env (rowCountSql qb))\<rparr>,
            tr' @ [QueryRaw (rowCountSql qb)])
         \<and> filter isQueryRaw tr' = filter isQueryRaw tr"
proof -
  have tr1: "filter isQueryRaw tr1 = filter isQueryRaw tr"
    using fetch_trace [of env tableId _ None tr] assms(2) by (metis snd_conv)
  obtain qb tr' where h: "handleRowCount env tableId name fm (sd_filter sd)
        (ro_filterLinkCellCandidate queryRo) (currentUserId env)
        (tr1 @ [TableMetaFind tableId]) =
      (queryRawUnsafe env (rowCountSql qb), tr' @ [QueryRaw (rowCountSql qb)])"
    and t: "filter isQueryRaw tr' = filter isQueryRaw tr1"
    by (cases "truthyLink (ro_filterLinkCellCandidate queryRo)")
       (simp_all add: handleRowCount_def getRowCount_def Let_def)
  have "performRowCount env tableId queryRo tr =
          (Inr \<lparr>rowCount = decodeRowCount (runtime env)
                               (queryRawUnsafe env (rowCountSql qb))\<rparr>,
           tr' @ [QueryRaw (rowCountSql qb)])"
    using assms h by (simp add: performRowCount_def getDbTableName_def)
  with t tr1 show ?thesis by auto
qed

section \<open>The claims\<close>

text \<open>
  C1. When the pre-check of \<open>getGroupPoints\<close> reports more distinct values than
  \<open>maxGroupPoints\<close>, the call fails with \<open>PayloadTooLarge\<close>; the pre-check is the only
  statement it executes, so the grouped query is never executed.
\<close>

theorem getGroupPoints_over_limit:
  assumes "query = Some ro" and "gp_viewId ro = Some viewId" and "viewId \<noteq> []"
    and "parseGroup env (gp_groupBy ro) = Some groupBy" and "groupBy \<noteq> []"
    and "tableMetaFind env tableId = Some dbTableName"
    and "fieldInstanceMap = fieldInstanceMapOf (fieldFindMany env tableId None)"
    and "mergeWithDefaultFilter env
           (case viewFindFirst env tableId viewId of None \<Rightarrow> None | Some v \<Rightarrow> view_filter v)
           (gp_filter ro) = Inr mergedFilter"
    and "precheck =
           distinctSql (map group_fieldId groupBy) fieldInstanceMap
             (case mergedFilter of
                None \<Rightarrow> knex dbTableName
              | Some f \<Rightarrow> filterQuery env fieldInstanceMap f None (knex dbTableName))"
    and "queryRawUnsafe env precheck = r # rs"
    and "js_Number (runtime env) (getProp r ''count'') = JNum distinctCount"
    and "maxGroupPoints env < distinctCount"
  shows "getGroupPoints env tableId query tr =
           (Inl PayloadTooLarge,
            tr @ [ViewFindFirst tableId viewId, FieldFindMany tableId, TableMetaFind tableId,
                  QueryRaw precheck])
         \<and> filter isQueryRaw (snd (getGroupPoints env tableId query tr)) =
             filter isQueryRaw tr @ [QueryRaw precheck]"
proof -
  obtain g gs where ggs: "groupBy = g # gs"
    using assms(5) by (cases groupBy) auto
  have chk: "checkGroupingOverLimit env (map group_fieldId (g # gs)) fieldInstanceMap
               (case mergedFilter of
                  None \<Rightarrow> knex dbTableName
                | Some f \<Rightarrow> filterQuery env fieldInstanceMap f None (knex dbTableName)) t =
             (Inr True, t @ [QueryRaw precheck])" for t
    using assms(9-12) by (simp add: checkGroupingOverLimit_def Let_def ggs)
  have res: "getGroupPoints env tableId query tr =
           (Inl PayloadTooLarge,
            tr @ [ViewFindFirst tableId viewId, FieldFindMany tableId, TableMetaFind tableId,
                  QueryRaw precheck])"
    using assms(1-4,6,8) chk
    by (simp add: getGroupPoints_def Let_def ggs findView_def getFieldsData_def
        getDbTableName_def assms(7) [symmetric])
  show ?thesis by (simp add: res)
qed

theorem getGroupPoints_over_limit_witness:
  "getGroupPoints exampleEnv ''tbl1'' (Some exampleGroupQuery) [] =
     (Inl PayloadTooLarge,
      [ViewFindFirst ''tbl1'' ''viw1'', FieldFindMany ''tbl1'', TableMetaFind ''tbl1'',
       QueryRaw ((knex ''tbl1_db'')\<lparr>qb_columns := [CountDistinct (Ref ''status'')]\<rparr>)])"
  using getGroupPoints_over_limit [where env = exampleEnv and tableId = "''tbl1''"
      and query = "Some exampleGroupQuery" and ro = exampleGroupQuery and viewId = "''viw1''"
      and groupBy = "[\<lparr>group_fieldId = ''fldStatus'', group_order = Asc\<rparr>]"
      and dbTableName = "''tbl1_db''"
      and fieldInstanceMap = "fieldInstanceMapOf [textField ''fldStatus'' ''status'']"
      and mergedFilter = None
      and precheck = "(knex ''tbl1_db'')\<lparr>qb_columns := [CountDistinct (Ref ''status'')]\<rparr>"
      and r = "[''count'' \<mapsto> JBigInt 7]" and rs = "[]" and distinctCount = 7 and tr = "[]"]
  by (simp add: exampleEnv_def exampleGroupQuery_def distinctSql_def fieldInstanceMapOf_def
      textField_def countDistinct_def columnOf_def knex_def getProp_def)

text \<open>
  C2. With two group fields, the first row emits a header at depth 0, a header at depth
  1 and its row marker; every later row whose depth-0 value differs from the row before
  it emits both headers again, whatever its depth-1 value; a row with the same depth-0
  value emits a depth-1 header only when its depth-1 value differs. The grouped rows
  (X, A, 2), (X, B, 1), (Y, A, 1) decode as the claim lists.
\<close>

theorem two_level_header_reset:
  "groupDbCollection2GroupPoints h rt [r] [f0, f1] =
     [headerPoint h rt 0 f0 (fieldValueOf rt r (dbFieldName f0)),
      headerPoint h rt 1 f1 (fieldValueOf rt r (dbFieldName f1)),
      Row (js_Number rt (getProp r ''__c''))]
   \<and> groupDbCollection2GroupPoints h rt (rows @ [p, r]) [f0, f1] =
       groupDbCollection2GroupPoints h rt (rows @ [p]) [f0, f1] @
         (if \<not> strictEq (fieldValueOf rt p (dbFieldName f0))
                 (fieldValueOf rt r (dbFieldName f0))
          then [headerPoint h rt 0 f0 (fieldValueOf rt r (dbFieldName f0)),
                headerPoint h rt 1 f1 (fieldValueOf rt r (dbFieldName f1))]
          else if \<not> strictEq (fieldValueOf rt p (dbFieldName f1))
                       (fieldValueOf rt r (dbFieldName f1))
          then [headerPoint h rt 1 f1 (fieldValueOf rt r (dbFieldName f1))]
          else []) @
         [Row (js_Number rt (getProp r ''__c''))]
   \<and> groupDbCollection2GroupPoints h rt [rowXA, rowXB, rowYA]
       [textField ''fldCategory'' ''category'', textField ''fldStatus'' ''status''] =
     [Header (js_String rt (h ''fldCategory_X'')) 0 (JStr ''X''),
      Header (js_String rt (h ''fldStatus_A'')) 1 (JStr ''A''), Row (JNum 2),
      Header (js_String rt (h ''fldStatus_B'')) 1 (JStr ''B''), Row (JNum 1),
      Header (js_String rt (h ''fldCategory_Y'')) 0 (JStr ''Y''),
      Header (js_String rt (h ''fldStatus_A'')) 1 (JStr ''A''), Row (JNum 1)]"
  using two_level_first [of h rt r f0 f1] two_level_step [of h rt rows p r f0 f1]
    two_level_example [of h rt]
  by (simp only: simp_thms)

theorem two_level_header_reset_witness:
  "groupDbCollection2GroupPoints (string2Hash exampleEnv) (runtime exampleEnv)
     ([rowXA] @ [rowXB, rowYA])
     [textField ''fldCategory'' ''category'', textField ''fldStatus'' ''status''] =
   groupDbCollection2GroupPoints (string2Hash exampleEnv) (runtime exampleEnv)
     ([rowXA] @ [rowXB])
     [textField ''fldCategory'' ''category'', textField ''fldStatus'' ''status''] @
   [Header ''0'' 0 (JStr ''Y''), Header ''0'' 1 (JStr ''A''), Row (JNum 1)]"
  using two_level_header_reset [of "string2Hash exampleEnv" "runtime exampleEnv" rowYA
      "textField ''fldCategory'' ''category''" "textField ''fldStatus'' ''status''"
      "[rowXA]" rowXB]
  by (simp add: exampleEnv_def textField_def fieldValueOf_def getProp_def headerPoint_def
      rowXA_def rowXB_def rowYA_def)

text \<open>
  C3, as stated, fails: a run of two result rows with the same grouped value has one
  header and then a row marker for each of its rows, each with that row's count, not one
  row marker with the run's count. The rows (A, 2), (A, 3), (B, 1) decode to a header
  for A, the markers 2 and 3, a header for B and the marker 1.
\<close>

theorem one_level_run_keeps_each_row_marker:
  "groupDbCollection2GroupPoints (string2Hash exampleEnv) (runtime exampleEnv)
     [statusRowA, statusRowA3, statusRowB] [textField ''fldStatus'' ''status''] =
   [Header ''0'' 0 (JStr ''A''), Row (JNum 2), Row (JNum 3),
    Header ''0'' 0 (JStr ''B''), Row (JNum 1)]"
  by (simp add: one_level_two_row_run exampleEnv_def)

text \<open>
  C3, amended. With one group field, the decoding is, for each maximal run of
  consecutive rows whose grouped values are strictly equal (an object such as a date
  first replaced by its string rendering), one depth-0 header, that of the run's first
  row, followed by one row marker for each row of the run with that row's count. So the
  first row emits a header and its marker, and a later row emits a header exactly when
  its value differs from the value of the row before it. When consecutive values all
  differ, every run is one row, followed by exactly one row marker. The rows (A, 2),
  (B, 1) decode to a header for A, the marker 2, a header for B and the marker 1; two
  rows with dates that render alike share one header.
\<close>

theorem one_level_header_per_run:
  "groupDbCollection2GroupPoints h rt groupResult [f] =
     concat (map (runPoints h rt f)
       (runsOf (\<lambda>item. fieldValueOf rt item (dbFieldName f)) groupResult))
   \<and> groupDbCollection2GroupPoints h rt [r] [f] =
     [headerPoint h rt 0 f (fieldValueOf rt r (dbFieldName f)),
      Row (js_Number rt (getProp r ''__c''))]
   \<and> groupDbCollection2GroupPoints h rt (rows @ [p, r]) [f] =
       groupDbCollection2GroupPoints h rt (rows @ [p]) [f] @
         (if strictEq (fieldValueOf rt p (dbFieldName f)) (fieldValueOf rt r (dbFieldName f))
          then [] else [headerPoint h rt 0 f (fieldValueOf rt r (dbFieldName f))]) @
         [Row (js_Number rt (getProp r ''__c''))]
   \<and> (successively
         (\<lambda>p r. \<not> strictEq (fieldValueOf rt p (dbFieldName f))
                   (fieldValueOf rt r (dbFieldName f))) groupResult
       \<longrightarrow> groupDbCollection2GroupPoints h rt groupResult [f] =
             concat (map (\<lambda>item. [headerPoint h rt 0 f (fieldValueOf rt item (dbFieldName f)),
                                   Row (js_Number rt (getProp item ''__c''))]) groupResult))
   \<and> groupDbCollection2GroupPoints h rt [statusRowA, statusRowB]
       [textField ''fldStatus'' ''status''] =
     [Header (js_String rt (h ''fldStatus_A'')) 0 (JStr ''A''), Row (JNum 2),
      Header (js_String rt (h ''fldStatus_B'')) 0 (JStr ''B''), Row (JNum 1)]
   \<and> groupDbCollection2GroupPoints h rt [statusRowA, statusRowA3, statusRowB]
       [textField ''fldStatus'' ''status''] =
     [Header (js_String rt (h ''fldStatus_A'')) 0 (JStr ''A''), Row (JNum 2), Row (JNum 3),
      Header (js_String rt (h ''fldStatus_B'')) 0 (JStr ''B''), Row (JNum 1)]
   \<and> groupDbCollection2GroupPoints h rt
       [createdRow ''2024-01-02T10:00:00.100Z'' 2, createdRow ''2024-01-02T10:00:00.200Z'' 3]
       [createdField] =
     [Header (js_String rt (h ''fldCreated_Tue Jan 02 2024 10:00:00 GMT+0000'')) 0
        (JStr ''Tue Jan 02 2024 10:00:00 GMT+0000''),
      Row (JNum 2), Row (JNum 3)]"
  by (intro conjI impI)
    (rule one_level_runs, rule one_level_first, rule one_level_step,
     erule one_level_all_headers, rule one_level_example, rule one_level_two_row_run,
     rule one_level_date_run)

theorem one_level_header_per_run_witness:
  "runsOf (\<lambda>item. fieldValueOf (runtime exampleEnv) item ''status'')
     [statusRowA, statusRowA3, statusRowB] = [[statusRowA, statusRowA3], [statusRowB]]
   \<and> groupDbCollection2GroupPoints (string2Hash exampleEnv) (runtime exampleEnv)
       [statusRowA, statusRowA3, statusRowB] [textField ''fldStatus'' ''status''] =
     runPoints (string2Hash exampleEnv) (runtime exampleEnv)
       (textField ''fldStatus'' ''status'') [statusRowA, statusRowA3] @
     runPoints (string2Hash exampleEnv) (runtime exampleEnv)
       (textField ''fldStatus'' ''status'') [statusRowB]
   \<and> successively
       (\<lambda>p r. \<not> strictEq (fieldValueOf (runtime exampleEnv) p ''status'')
                 (fieldValueOf (runtime exampleEnv) r ''status''))
       [statusRowA, statusRowB]
   \<and> groupDbCollection2GroupPoints (string2Hash exampleEnv) (runtime exampleEnv)
       [statusRowA, statusRowB] [textField ''fldStatus'' ''status''] =
     [Header ''0'' 0 (JStr ''A''), Row (JNum 2), Header ''0'' 0 (JStr ''B''), Row (JNum 1)]
   \<and> groupDbCollection2GroupPoints (string2Hash exampleEnv) (runtime exampleEnv)
       [createdRow ''2024-01-02T10:00:00.100Z'' 2, createdRow ''2024-01-02T10:00:00.200Z'' 3]
       [createdField] =
     [Header ''0'' 0 (JStr ''Tue Jan 02 2024 10:00:00 GMT+0000''), Row (JNum 2), Row (JNum 3)]"
proof -
  have runs: "runsOf (\<lambda>item. fieldValueOf (runtime exampleEnv) item ''status'')
     [statusRowA, statusRowA3, statusRowB] = [[statusRowA, statusRowA3], [statusRowB]]"
    by (simp add: fieldValueOf_def getProp_def statusRowA_def statusRowA3_def statusRowB_def)
  have adj: "successively
       (\<lambda>p r. \<not> strictEq (fieldValueOf (runtime exampleEnv) p ''status'')
                 (fieldValueOf (runtime exampleEnv) r ''status''))
       [statusRowA, statusRowB]"
    by (simp add: fieldValueOf_def getProp_def statusRowA_def statusRowB_def)
  have name: "dbFieldName (textField ''fldStatus'' ''status'') = ''status''"
    by (simp add: textField_def)
  note inst = one_level_header_per_run [where h = "string2Hash exampleEnv"
      and rt = "runtime exampleEnv" and f = "textField ''fldStatus'' ''status''"
      and r = statusRowA and rows = "[]" and p = statusRowA]
  note runs_inst = inst [where groupResult = "[statusRowA, statusRowA3, statusRowB]",
      THEN conjunct1]
  note adj_inst = inst [where groupResult = "[statusRowA, statusRowB]",
      THEN conjunct2, THEN conjunct2, THEN conjunct2, THEN conjunct1, THEN mp]
  note date_inst = inst [where groupResult = "[]",
      THEN conjunct2, THEN conjunct2, THEN conjunct2, THEN conjunct2, THEN conjunct2,
      THEN conjunct2]
  have a: "groupDbCollection2GroupPoints (string2Hash exampleEnv) (runtime exampleEnv)
       [statusRowA, statusRowA3, statusRowB] [textField ''fldStatus'' ''status''] =
     runPoints (string2Hash exampleEnv) (runtime exampleEnv)
       (textField ''fldStatus'' ''status'') [statusRowA, statusRowA3] @
     runPoints (string2Hash exampleEnv) (runtime exampleEnv)
       (textField ''fldStatus'' ''status'') [statusRowB]"
    using runs_inst by (simp only: name runs) simp
  have b: "groupDbCollection2GroupPoints (string2Hash exampleEnv) (runtime exampleEnv)
       [statusRowA, statusRowB] [textField ''fldStatus'' ''status''] =
     [Header ''0'' 0 (JStr ''A''), Row (JNum 2), Header ''0'' 0 (JStr ''B''), Row (JNum 1)]"
    using adj_inst adj
    by (simp add: name)
       (simp add: headerPoint_def fieldValueOf_def getProp_def textField_def exampleEnv_def
          statusRowA_def statusRowB_def)
  have c: "groupDbCollection2GroupPoints (string2Hash exampleEnv) (runtime exampleEnv)
       [createdRow ''2024-01-02T10:00:00.100Z'' 2, createdRow ''2024-01-02T10:00:00.200Z'' 3]
       [createdField] =
     [Header ''0'' 0 (JStr ''Tue Jan 02 2024 10:00:00 GMT+0000''), Row (JNum 2), Row (JNum 3)]"
    using date_inst by (simp add: exampleEnv_def)
  from runs a adj b c show ?thesis by (intro conjI)
qed

text \<open>
  C4. For a raw value that is \<open>null\<close> or \<open>undefined\<close>, \<open>formatConvertValue\<close> returns
  the number 0 under each of the five percent functions and \<open>null\<close> under every other
  function, and \<open>null\<close> when no function is given.
\<close>

theorem formatConvertValue_absent:
  assumes "v = JNull \<or> v = JUndefined"
  shows "formatConvertValue d v (Some f) =
           (if f \<in> {PercentEmpty, PercentFilled, PercentUnique, PercentChecked,
                     PercentUnChecked}
            then JNum 0 else JNull)
         \<and> formatConvertValue d v None = JNull"
  using assms by (auto simp: formatConvertValue_def defaultToZero_def)

theorem formatConvertValue_absent_witness:
  "formatConvertValue monthDifference JNull (Some PercentUnique) = JNum 0
   \<and> formatConvertValue monthDifference JNull (Some DateRangeOfMonths) = JNull
   \<and> formatConvertValue monthDifference JNull (Some (OtherStatisticsFunc ''sum'')) = JNull"
  using formatConvertValue_absent [of JNull monthDifference PercentUnique]
    formatConvertValue_absent [of JNull monthDifference DateRangeOfMonths]
    formatConvertValue_absent [of JNull monthDifference "OtherStatisticsFunc ''sum''"]
  by simp

text \<open>
  C5. Under the date-range-in-months function, a text \<open>max,min\<close> with both sides
  non-empty decodes to the month difference that the date library computes from
  \<open>max\<close> to \<open>min\<close>; a text with an empty side, or with no comma, decodes to 0. With the
  month difference of the specification, \<open>2024-03-15,2024-01-01\<close> decodes to 2.
\<close>

theorem dateRangeOfMonths_decode:
  assumes "CHR '','' \<notin> set maxTime" and "CHR '','' \<notin> set minTime"
  shows "formatConvertValue d (JStr (maxTime @ '','' @ minTime)) (Some DateRangeOfMonths) =
           (if maxTime \<noteq> [] \<and> minTime \<noteq> [] then d maxTime minTime else JNum 0)
         \<and> formatConvertValue d (JStr maxTime) (Some DateRangeOfMonths) = JNum 0
         \<and> formatConvertValue monthDifference (JStr ''2024-03-15,2024-01-01'')
              (Some DateRangeOfMonths) = JNum 2"
proof -
  have sp: "split_on CHR '','' (maxTime @ '','' @ minTime) = [maxTime, minTime]"
    using assms by (simp add: split_on_append split_on_no_sep)
  have one: "split_on CHR '','' maxTime = [maxTime]"
    using assms by (simp add: split_on_no_sep)
  have ex: "formatConvertValue monthDifference (JStr ''2024-03-15,2024-01-01'')
              (Some DateRangeOfMonths) = JNum 2"
    by code_simp
  show ?thesis
    using sp one ex
    by (simp add: formatConvertValue_def calculateDateRangeOfMonths_def defaultToZero_def)
qed

theorem dateRangeOfMonths_decode_witness:
  "formatConvertValue monthDifference (JStr (''2024-03-15'' @ '','' @ ''2024-01-01''))
     (Some DateRangeOfMonths) = JNum 2
   \<and> formatConvertValue monthDifference (JStr (''2024-03-15'' @ '','' @ ''''))
       (Some DateRangeOfMonths) = JNum 0
   \<and> formatConvertValue monthDifference (JStr ''2024-03-15'') (Some DateRangeOfMonths) = JNum 0"
proof -
  have md: "monthDifference ''2024-03-15'' ''2024-01-01'' = JNum 2"
    by code_simp
  show ?thesis
    using dateRangeOfMonths_decode [of "''2024-03-15''" "''2024-01-01''" monthDifference]
      dateRangeOfMonths_decode [of "''2024-03-15''" "''''" monthDifference] md
    by simp
qed

text \<open>
  C6. When \<open>filterLinkCellSelected\<close> is given, \<open>performRowCount\<close> executes no statement
  over the storage table, every result it returns carries the number of ids that the
  record service returns for the selection, and it does return that result whenever the
  lookups made before the branch succeed.
\<close>

theorem performRowCount_selected:
  assumes "ro_filterLinkCellSelected queryRo = Some selected"
    and "truthyLink (Some selected)"
  shows "filter isQueryRaw (snd (performRowCount env tableId queryRo tr)) =
           filter isQueryRaw tr
         \<and> (\<forall>v. fst (performRowCount env tableId queryRo tr) = Inr v \<longrightarrow>
                rowCount v = JNum (of_nat (length (getLinkSelectedRecordIds env selected))))
         \<and> (tableMetaFind env tableId \<noteq> None
            \<and> (\<forall>e. fst (fetchStatisticsParams env tableId
                          (Some \<lparr>wv_viewId = ro_viewId queryRo,
                                 wv_customFilter = ro_filter queryRo,
                                 wv_customFieldStats = None\<rparr>) None tr) \<noteq> Inl e)
            \<longrightarrow> fst (performRowCount env tableId queryRo tr) =
                  Inr \<lparr>rowCount =
                         JNum (of_nat (length (getLinkSelectedRecordIds env selected)))\<rparr>)"
proof -
  let ?F = "fetchStatisticsParams env tableId
              (Some \<lparr>wv_viewId = ro_viewId queryRo, wv_customFilter = ro_filter queryRo,
                     wv_customFieldStats = None\<rparr>) None tr"
  have tr1: "filter isQueryRaw (snd ?F) = filter isQueryRaw tr"
    by (rule fetch_trace)
  note res = performRowCount_selected_result [OF assms, of env tableId tr]
  show ?thesis
  proof (cases ?F)
    case (Pair a tr1')
    with tr1 have t: "filter isQueryRaw tr1' = filter isQueryRaw tr" by simp
    show ?thesis
    proof (cases a)
      case (Inl e)
      with Pair t res show ?thesis by simp
    next
      case (Inr p)
      with Pair t res show ?thesis
        by (cases "tableMetaFind env tableId") simp_all
    qed
  qed
qed

theorem performRowCount_selected_witness:
  "performRowCount exampleEnv ''tbl1'' exampleSelectedQuery [] =
     (Inr \<lparr>rowCount = JNum 5\<rparr>,
      [ViewFindFirst ''tbl1'' ''viw1'', FieldFindMany ''tbl1'', TableMetaFind ''tbl1'',
       LinkSelectedRecordIds (LinkField ''fldLink'')])"
  using performRowCount_selected [of exampleSelectedQuery "LinkField ''fldLink''" exampleEnv
      "''tbl1''" "[]"]
  by (simp add: performRowCount_def fetchStatisticsParams_def findView_def getFieldsData_def
      buildStatisticsData_def filterFieldInstances_def getStatisticFields_def
      statisticFieldStep_def getDbTableName_def exampleEnv_def exampleSelectedQuery_def
      textField_def Let_def)

text \<open>
  C7. Whatever projections, counters, group, having and order clauses, limit and offset a
  builder carries, the statement \<open>getRowCount\<close> executes keeps its table, joins and
  predicates and has \<open>count(*)\<close> as its only projection and none of the other clauses.
  \<open>performRowCount\<close> executes that one statement and decodes its answer: no row, or a
  first row without a count, gives 0, and a count that is a natural number, as a number
  or as a bigint, gives that number.
\<close>

theorem getRowCount_count_only:
  "getRowCount env queryBuilder tr =
     (queryRawUnsafe env (rowCountSql queryBuilder),
      tr @ [QueryRaw (rowCountSql queryBuilder)])
   \<and> rowCountSql queryBuilder =
       \<lparr>qb_table = qb_table queryBuilder, qb_columns = [CountAs ''count'' Star],
        qb_joins = qb_joins queryBuilder, qb_wheres = qb_wheres queryBuilder,
        qb_groups = [], qb_havings = [], qb_orders = [], qb_counters = [],
        qb_limit = None, qb_offset = None\<rparr>
   \<and> decodeRowCount rt [] = JNum 0
   \<and> (r ''count'' = None \<or> r ''count'' = Some JNull \<longrightarrow> decodeRowCount rt (r # rs) = JNum 0)
   \<and> (r ''count'' = Some (JNum (of_nat n)) \<or> r ''count'' = Some (JBigInt (int n))
       \<longrightarrow> decodeRowCount rt (r # rs) = JNum (of_nat n))
   \<and> (\<not> truthyLink (ro_filterLinkCellSelected queryRo)
       \<and> fetchStatisticsParams env tableId
            (Some \<lparr>wv_viewId = ro_viewId queryRo, wv_customFilter = ro_filter queryRo,
                   wv_customFieldStats = None\<rparr>) None tr = (Inr (sd, fm), tr1)
       \<and> tableMetaFind env tableId = Some name
       \<longrightarrow> (\<exists>qb tr'. performRowCount env tableId queryRo tr =
                        (Inr \<lparr>rowCount = decodeRowCount (runtime env)
                                             (queryRawUnsafe env (rowCountSql qb))\<rparr>,
                         tr' @ [QueryRaw (rowCountSql qb)])
                      \<and> filter isQueryRaw tr' = filter isQueryRaw tr))"
proof (intro conjI impI)
  show "getRowCount env queryBuilder tr =
          (queryRawUnsafe env (rowCountSql queryBuilder),
           tr @ [QueryRaw (rowCountSql queryBuilder)])"
    by (simp add: getRowCount_def)
  show "rowCountSql queryBuilder =
       \<lparr>qb_table = qb_table queryBuilder, qb_columns = [CountAs ''count'' Star],
        qb_joins = qb_joins queryBuilder, qb_wheres = qb_wheres queryBuilder,
        qb_groups = [], qb_havings = [], qb_orders = [], qb_counters = [],
        qb_limit = None, qb_offset = None\<rparr>"
    by (rule rowCountSql_shape)
  show "decodeRowCount rt [] = JNum 0"
    by (simp add: decodeRowCount_def)
  show "decodeRowCount rt (r # rs) = JNum 0"
    if "r ''count'' = None \<or> r ''count'' = Some JNull"
    using that by (auto simp: decodeRowCount_def getProp_def)
  show "decodeRowCount rt (r # rs) = JNum (of_nat n)"
    if "r ''count'' = Some (JNum (of_nat n)) \<or> r ''count'' = Some (JBigInt (int n))"
    using that by (auto simp: decodeRowCount_def getProp_def)
  show "\<exists>qb tr'. performRowCount env tableId queryRo tr =
                        (Inr \<lparr>rowCount = decodeRowCount (runtime env)
                                             (queryRawUnsafe env (rowCountSql qb))\<rparr>,
                         tr' @ [QueryRaw (rowCountSql qb)])
                      \<and> filter isQueryRaw tr' = filter isQueryRaw tr"
    if "\<not> truthyLink (ro_filterLinkCellSelected queryRo)
       \<and> fetchStatisticsParams env tableId
            (Some \<lparr>wv_viewId = ro_viewId queryRo, wv_customFilter = ro_filter queryRo,
                   wv_customFieldStats = None\<rparr>) None tr = (Inr (sd, fm), tr1)
       \<and> tableMetaFind env tableId = Some name"
    using that performRowCount_count_result [of queryRo env tableId tr sd fm tr1 name]
    by blast
qed

theorem getRowCount_count_only_witness:
  "performRowCount exampleEnv ''tbl1'' exampleCountQuery [] =
     (Inr \<lparr>rowCount = JNum 7\<rparr>,
      [ViewFindFirst ''tbl1'' ''viw1'', FieldFindMany ''tbl1'', TableMetaFind ''tbl1'',
       QueryRaw ((knex ''tbl1_db'')
         \<lparr>qb_columns := [CountAs ''count'' Star], qb_wheres := [''status is A'']\<rparr>)])
   \<and> rowCountSql
       ((knex ''tbl1_db'')
          \<lparr>qb_columns := [Select (Ref ''status''), CountAs ''n'' Star],
           qb_wheres := [''status is A''], qb_groups := [Ref ''status''],
           qb_havings := [''n > 1''], qb_orders := [''status asc''],
           qb_counters := [(''visits'', 1)], qb_limit := Some 10, qb_offset := Some 20\<rparr>) =
     (knex ''tbl1_db'')\<lparr>qb_columns := [CountAs ''count'' Star], qb_wheres := [''status is A'']\<rparr>
   \<and> decodeRowCount (runtime exampleEnv) [[''count'' \<mapsto> JBigInt 7]] = JNum 7"
  using getRowCount_count_only [of exampleEnv
      "(knex ''tbl1_db'')
          \<lparr>qb_columns := [Select (Ref ''status''), CountAs ''n'' Star],
           qb_wheres := [''status is A''], qb_groups := [Ref ''status''],
           qb_havings := [''n > 1''], qb_orders := [''status asc''],
           qb_counters := [(''visits'', 1)], qb_limit := Some 10, qb_offset := Some 20\<rparr>"
      "[]" "runtime exampleEnv" "[''count'' \<mapsto> JBigInt 7]" "[]" 7 exampleCountQuery
      "''tbl1''"]
  by (simp add: performRowCount_def fetchStatisticsParams_def findView_def getFieldsData_def
      buildStatisticsData_def filterFieldInstances_def getStatisticFields_def
      statisticFieldStep_def getDbTableName_def handleRowCount_def getRowCount_def
      rowCountSql_shape decodeRowCount_def getProp_def knex_def
      exampleEnv_def exampleCountQuery_def textField_def Let_def)

text \<open>
  C8, as stated, fails: when the field whose name is another field's id comes first, the
  later write under that id replaces the name mapping, and the id entry is the field
  with that id.
\<close>

theorem fieldInstanceMap_id_entry_kept:
  "field_name (textField ''fldA'' ''fldB'') = field_id (textField ''fldB'' ''Title'')
   \<and> map_option field_id
       (fieldInstanceMapOf [textField ''fldA'' ''fldB'', textField ''fldB'' ''Title'']
          ''fldB'') = Some ''fldB''"
  by (simp add: fieldInstanceMapOf_def textField_def)

text \<open>
  C8, amended. The lookup map sends a key to the last field of the list whose id or
  name is that key. So a field whose name is the id of an earlier field replaces that
  id entry with the name mapping, and a field whose id is the name of an earlier field
  replaces that name entry with the id mapping, in both cases unless a still later field
  is written under the key.
\<close>

theorem fieldInstanceMap_last_write_wins:
  "fieldInstanceMapOf (fieldInstances :: 'c IFieldInstance list) k =
     (case filter (keyed k) fieldInstances of
        [] \<Rightarrow> None
      | g # gs \<Rightarrow> Some (last (g # gs)))
   \<and> (field_name b = field_id a \<and> filter (keyed (field_id a)) zs = []
       \<longrightarrow> fieldInstanceMapOf (xs @ a # ys @ b # zs) (field_id a) =
             Some (b :: 'c IFieldInstance))
   \<and> (field_name b = field_id a \<and> filter (keyed (field_id a)) zs = []
       \<longrightarrow> fieldInstanceMapOf (xs @ b # ys @ a # zs) (field_id a) = Some a)"
proof (intro conjI impI)
  show "fieldInstanceMapOf fieldInstances k =
     (case filter (keyed k) fieldInstances of
        [] \<Rightarrow> None
      | g # gs \<Rightarrow> Some (last (g # gs)))"
    by (rule map_last_keyed)
  show "fieldInstanceMapOf (xs @ a # ys @ b # zs) (field_id a) = Some b"
    if "field_name b = field_id a \<and> filter (keyed (field_id a)) zs = []"
    using that later_wins [of "field_id a" b zs "xs @ a # ys"] by (simp add: keyed_def)
  show "fieldInstanceMapOf (xs @ b # ys @ a # zs) (field_id a) = Some a"
    if "field_name b = field_id a \<and> filter (keyed (field_id a)) zs = []"
    using that later_wins [of "field_id a" a zs "xs @ b # ys"] by (simp add: keyed_def)
qed

theorem fieldInstanceMap_last_write_wins_witness:
  "fieldInstanceMapOf [textField ''fldB'' ''Title'', textField ''fldA'' ''fldB''] ''fldB'' =
     Some (textField ''fldA'' ''fldB'')
   \<and> fieldInstanceMapOf [textField ''fldA'' ''fldB'', textField ''fldB'' ''Title''] ''fldB'' =
       Some (textField ''fldB'' ''Title'')"
  using fieldInstanceMap_last_write_wins [of "[textField ''fldA'' ''fldB'']" "''fldB''"
      "textField ''fldA'' ''fldB''" "textField ''fldB'' ''Title''" "[]" "[]" "[]"]
  by (simp add: textField_def keyed_def)

text \<open>
  C9. When the view id is absent or empty, or the parsed group-by list is absent or
  empty, \<open>getGroupPoints\<close> returns \<open>null\<close> without an error and without any call to the
  store: the record of calls is unchanged.
\<close>

theorem getGroupPoints_no_group:
  assumes "\<not> truthyStr (case query of None \<Rightarrow> None | Some q \<Rightarrow> gp_viewId q)
           \<or> parseGroup env (case query of None \<Rightarrow> None | Some q \<Rightarrow> gp_groupBy q) = None
           \<or> parseGroup env (case query of None \<Rightarrow> None | Some q \<Rightarrow> gp_groupBy q) = Some []"
  shows "getGroupPoints env tableId query tr = (Inr None, tr)"
  using assms by (auto simp: getGroupPoints_def Let_def)

theorem getGroupPoints_no_group_witness:
  "getGroupPoints exampleEnv ''tbl1'' None [] = (Inr None, [])
   \<and> getGroupPoints exampleEnv ''tbl1'' (Some (exampleGroupQuery\<lparr>gp_viewId := None\<rparr>)) [] =
       (Inr None, [])
   \<and> getGroupPoints exampleEnv ''tbl1'' (Some (exampleGroupQuery\<lparr>gp_groupBy := Some []\<rparr>)) [] =
       (Inr None, [])
   \<and> getGroupPoints exampleEnv ''tbl1'' (Some (exampleGroupQuery\<lparr>gp_groupBy := None\<rparr>)) [] =
       (Inr None, [])"
  using getGroupPoints_no_group [of None exampleEnv "''tbl1''" "[]"]
    getGroupPoints_no_group [of "Some (exampleGroupQuery\<lparr>gp_viewId := None\<rparr>)" exampleEnv
      "''tbl1''" "[]"]
    getGroupPoints_no_group [of "Some (exampleGroupQuery\<lparr>gp_groupBy := Some []\<rparr>)" exampleEnv
      "''tbl1''" "[]"]
    getGroupPoints_no_group [of "Some (exampleGroupQuery\<lparr>gp_groupBy := None\<rparr>)" exampleEnv
      "''tbl1''" "[]"]
  by (simp add: exampleEnv_def exampleGroupQuery_def)

text \<open>
  C10. Only the depths 0 and 1 have a last-seen value. Keeping of the decoded points
  the row markers and the headers at depth 2 and deeper leaves, for every row, one header
  for each group field from the third on and then the row marker, whether or not a
  value repeats. Two rows equal in three group fields give the depth-2 header twice.
\<close>

theorem deep_headers_every_row:
  "filter deepOrRow (groupDbCollection2GroupPoints h rt groupResult groupFields) =
     concat (map (\<lambda>item. headersOf h rt item (enumerate 2 (drop 2 groupFields)) @
                    [Row (js_Number rt (getProp item ''__c''))]) groupResult)
   \<and> groupDbCollection2GroupPoints h rt [rowXAP 2, rowXAP 1]
       [textField ''fldCategory'' ''category'', textField ''fldStatus'' ''status'',
        textField ''fldOwner'' ''owner''] =
     [Header (js_String rt (h ''fldCategory_X'')) 0 (JStr ''X''),
      Header (js_String rt (h ''fldStatus_A'')) 1 (JStr ''A''),
      Header (js_String rt (h ''fldOwner_P'')) 2 (JStr ''P''), Row (JNum 2),
      Header (js_String rt (h ''fldOwner_P'')) 2 (JStr ''P''), Row (JNum 1)]"
  by (intro conjI) (rule decode_deep, rule three_level_example)

theorem deep_headers_every_row_witness:
  "filter deepOrRow
     (groupDbCollection2GroupPoints (string2Hash exampleEnv) (runtime exampleEnv)
        [rowXAP 2, rowXAP 1]
        [textField ''fldCategory'' ''category'', textField ''fldStatus'' ''status'',
         textField ''fldOwner'' ''owner'']) =
   [Header ''0'' 2 (JStr ''P''), Row (JNum 2), Header ''0'' 2 (JStr ''P''), Row (JNum 1)]"
  using deep_headers_every_row [of "string2Hash exampleEnv" "runtime exampleEnv"
      "[rowXAP 2, rowXAP 1]"
      "[textField ''fldCategory'' ''category'', textField ''fldStatus'' ''status'',
        textField ''fldOwner'' ''owner'']"]
  by (simp add: exampleEnv_def textField_def fieldValueOf_def getProp_def headerPoint_def
      headersOf_def rowXAP_def)

end
